theory Spec2Isabelle
  imports
    Complex_Main
    "HOL-Library.Word"
    "HOL-Library.AList"
    "HOL-Library.Char_ord"
    "HOL-Library.List_Lexorder"
    "HOL-Library.Product_Lexorder"
begin

section \<open>The PBF writer of Osmium (include/osmium/output/pbf.hpp)\<close>

text \<open>
  A shallow embedding of class \<open>Osmium::Output::PBF\<close>. The object is a record that
  every member function takes and returns; an exception of the source is the \<open>Inl\<close>
  branch of a sum. The protobuf messages of the OSMPBF schema are records holding the
  values the writer passes to their setters. Serialisation of a message to bytes
  (protobuf), \<open>ByteSize\<close>, zlib's deflate and the \<open>write\<close> system call belong to
  external libraries and to the operating system: they are parameters of the model.
  The C++ \<open>double\<close> arithmetic of the two scaling helpers is idealised to exact real
  arithmetic.
\<close>

type_synonym byte = "8 word"

datatype error = IoFailed | CompressionFailed | InvalidMemberType | InvalidStringId

subsection \<open>Delta (osmium/utils/delta.hpp)\<close>

text \<open>
  Modelled from the spec: the class template \<open>Delta<T>\<close> of osmium/utils/delta.hpp is
  not among the source files. Section 4.1: a single previous value, initialised to zero;
  \<open>update(v)\<close> returns \<open>v - prev\<close> and sets \<open>prev := v\<close>; \<open>clear()\<close> sets \<open>prev := 0\<close>.
  The integer width is the one of the instantiating type, so the value is a word.
\<close>

datatype 'a Delta = Delta (prev: 'a)

definition delta_update :: "'a::minus \<Rightarrow> 'a Delta \<Rightarrow> 'a \<times> 'a Delta" where
  "delta_update v d = (v - prev d, Delta v)"

definition delta_clear :: "'a::zero Delta" where
  "delta_clear = Delta 0"

subsection \<open>StringTable (osmium/utils/stringtable.hpp)\<close>

text \<open>
  Modelled from the spec: the class \<open>Osmium::StringTable\<close> of
  osmium/utils/stringtable.hpp is not among the source files. Section 4.2:
  \<open>record(s)\<close> returns 0 for the empty string without recording it; otherwise it
  returns the existing interim id of \<open>s\<close> or allocates the next one (starting at 1),
  and increments the usage count of \<open>s\<close>. \<open>finalize_table\<close> sorts the strings by
  descending usage count, ties by ascending string comparison, emits them at the
  indices 1..N behind the empty string at index 0, and builds the map from interim to
  final ids. \<open>map\<close> returns the precomputed final id; it is valid only after
  \<open>finalize_table\<close>, and the input 0 is invalid: outside its domain the model has no
  result (\<open>None\<close>). The member functions keep the names the source calls them by:
  \<open>record_string\<close>, \<open>store_stringtable\<close>, \<open>map_string_id\<close>, \<open>clear\<close>.

  An entry of \<open>m_strings\<close> is (string, (interim id, usage count)), in insertion order.
\<close>

record StringTable =
  m_strings :: "(string \<times> nat \<times> nat) list"
  m_id2id_map :: "(nat \<times> nat) list"

definition string_table_empty :: StringTable where
  "string_table_empty = \<lparr>m_strings = [], m_id2id_map = []\<rparr>"

definition record_string :: "string \<Rightarrow> StringTable \<Rightarrow> nat \<times> StringTable" where
  "record_string s st =
     (if s = [] then (0, st)
      else (case map_of (m_strings st) s of
              Some (iid, c) \<Rightarrow>
                (iid, st\<lparr>m_strings := AList.update s (iid, c + 1) (m_strings st)\<rparr>)
            | None \<Rightarrow>
                (let iid = length (m_strings st) + 1
                 in (iid, st\<lparr>m_strings := m_strings st @ [(s, (iid, 1))]\<rparr>))))"

definition sort_strings :: "(string \<times> nat \<times> nat) list \<Rightarrow> (string \<times> nat \<times> nat) list" where
  "sort_strings es = sort_key (\<lambda>(s, iid, c). (- int c, s)) es"

definition store_stringtable :: "StringTable \<Rightarrow> string list \<times> StringTable" where
  "store_stringtable st =
     (let sorted = sort_strings (m_strings st)
      in ('''' # map fst sorted,
          st\<lparr>m_id2id_map := zip (map (\<lambda>(s, iid, c). iid) sorted) [1..<length sorted + 1]\<rparr>))"

definition map_string_id :: "StringTable \<Rightarrow> nat \<Rightarrow> nat option" where
  "map_string_id st interim_id =
     (if interim_id = 0 then None else map_of (m_id2id_map st) interim_id)"

subsection \<open>The OSM objects handed to the writer (osmium/osm/*.hpp)\<close>

text \<open>
  Modelled from the spec: the object model of osmium/osm is not among the source
  files. Section 6: an entity exposes id, tags (key/value pairs of strings), version,
  timestamp (epoch seconds), changeset, uid, user, visible; a node also lon and lat, a
  way its node references, a relation its members (kind tag, referenced id, role).
\<close>

record OSMObject =
  o_id :: "64 word"
  o_tags :: "(string \<times> string) list"
  o_version :: "32 word"
  o_timestamp :: int
  o_changeset :: "64 word"
  o_uid :: "64 word"
  o_user :: string
  o_visible :: bool

record OSMNode = OSMObject +
  n_lon :: real
  n_lat :: real

record OSMWay = OSMObject +
  w_nodes :: "64 word list"

record RelationMember =
  m_type :: char
  m_ref :: "64 word"
  m_role :: string

record OSMRelation = OSMObject +
  r_members :: "RelationMember list"

text \<open>
  Modelled from the spec: \<open>Osmium::OSMFile\<close> and \<open>Osmium::OSM::Meta\<close> are not among
  the source files. Section 6: the file provides a descriptor, a file-variant tag
  (history or not) and a close operation; the variant carries multiple object versions
  when it is the history variant. Meta holds the optional bounding box (bottom left
  lon and lat, top right lon and lat).

  The descriptor is the byte sequence written so far and a script of what the next
  \<open>write\<close> calls will answer: a negative entry is a failing call, an entry \<open>k \<ge> 0\<close> a call
  that accepts at most \<open>k\<close> bytes, and with the script used up every call accepts all
  its bytes.
\<close>

record fd_state =
  fd_written :: "byte list"
  fd_script :: "int list"

datatype FileType = OSM | History

record OSMFile =
  f_type :: FileType
  f_fd :: fd_state
  f_closed :: bool

definition has_multiple_object_versions :: "OSMFile \<Rightarrow> bool" where
  "has_multiple_object_versions file = (f_type file = History)"

record Meta =
  bounds :: "(real \<times> real \<times> real \<times> real) option"

definition fd_write :: "fd_state \<Rightarrow> byte list \<Rightarrow> int \<times> fd_state" where
  "fd_write fd buf =
     (case fd_script fd of
        [] \<Rightarrow> (int (length buf), fd\<lparr>fd_written := fd_written fd @ buf\<rparr>)
      | r # rs \<Rightarrow>
          (if r < 0 then (r, fd\<lparr>fd_script := rs\<rparr>)
           else (int (min (nat r) (length buf)),
                 fd\<lparr>fd_written := fd_written fd @ take (nat r) buf, fd_script := rs\<rparr>)))"

subsection \<open>The protobuf messages (osmpbf)\<close>

text \<open>
  String-table indices (interim ids before the flush, final ids after it) are natural
  numbers: the 32-bit fields that hold them do not wrap below \<open>2^31\<close> strings in one
  block. The narrowing to \<open>uint16_t\<close> in \<open>map_string_ids\<close> is written out. The column
  \<open>DenseInfo.user_sid\<close> is a signed field: it reads the 32-bit result of the tracker as
  a signed value.
\<close>

record PBFInfo =
  i_version :: "32 word"
  i_timestamp :: "64 word"
  i_changeset :: "64 word"
  i_uid :: "64 word"
  i_user_sid :: nat
  i_visible :: "bool option"

record PBFObject =
  p_id :: "64 word"
  p_keys :: "nat list"
  p_vals :: "nat list"
  p_info :: "PBFInfo option"

record PBFNode = PBFObject +
  pn_lat :: "64 word"
  pn_lon :: "64 word"

record PBFWay = PBFObject +
  pw_refs :: "64 word list"

datatype MemberType = NODE | WAY | RELATION

record PBFRelation = PBFObject +
  pr_roles_sid :: "nat list"
  pr_memids :: "64 word list"
  pr_types :: "MemberType list"

record DenseInfo =
  di_version :: "32 word list"
  di_visible :: "bool list"
  di_timestamp :: "64 word list"
  di_changeset :: "64 word list"
  di_uid :: "64 word list"
  di_user_sid :: "int list"

record DenseNodes =
  d_id :: "64 word list"
  d_lat :: "64 word list"
  d_lon :: "64 word list"
  d_keys_vals :: "nat list"
  d_denseinfo :: "DenseInfo option"

record PrimitiveGroup =
  g_nodes :: "PBFNode list"
  g_dense :: "DenseNodes option"
  g_ways :: "PBFWay list"
  g_relations :: "PBFRelation list"

record PrimitiveBlock =
  b_stringtable :: "string list"
  b_primitivegroup :: "PrimitiveGroup list"
  b_granularity :: int
  b_date_granularity :: int

record HeaderBBox =
  bb_left :: "64 word"
  bb_bottom :: "64 word"
  bb_right :: "64 word"
  bb_top :: "64 word"

record HeaderBlock =
  h_required_features :: "string list"
  h_writingprogram :: string
  h_bbox :: "HeaderBBox option"

record Blob =
  blob_raw :: "byte list option"
  blob_zlib_data :: "byte list option"
  blob_raw_size :: "32 word option"

record BlobHeader =
  bh_type :: string
  bh_datasize :: "32 word"

datatype message = HeaderMsg HeaderBlock | PrimitiveMsg PrimitiveBlock

text \<open>The external libraries: protobuf serialisation and sizes, zlib.\<close>

record env =
  serialize_msg :: "message \<Rightarrow> byte list"
  serialize_blob :: "Blob \<Rightarrow> byte list"
  serialize_blob_header :: "BlobHeader \<Rightarrow> byte list"
  deflate :: "byte list \<Rightarrow> byte list option"
  way_byte_size :: "PBFWay \<Rightarrow> nat"
  relation_byte_size :: "PBFRelation \<Rightarrow> nat"

definition empty_info :: PBFInfo where
  "empty_info = \<lparr>i_version = 0, i_timestamp = 0, i_changeset = 0, i_uid = 0,
     i_user_sid = 0, i_visible = None\<rparr>"

definition empty_node :: PBFNode where
  "empty_node = \<lparr>p_id = 0, p_keys = [], p_vals = [], p_info = None, pn_lat = 0, pn_lon = 0\<rparr>"

definition empty_way :: PBFWay where
  "empty_way = \<lparr>p_id = 0, p_keys = [], p_vals = [], p_info = None, pw_refs = []\<rparr>"

definition empty_relation :: PBFRelation where
  "empty_relation = \<lparr>p_id = 0, p_keys = [], p_vals = [], p_info = None,
     pr_roles_sid = [], pr_memids = [], pr_types = []\<rparr>"

definition empty_denseinfo :: DenseInfo where
  "empty_denseinfo = \<lparr>di_version = [], di_visible = [], di_timestamp = [],
     di_changeset = [], di_uid = [], di_user_sid = []\<rparr>"

definition empty_dense :: DenseNodes where
  "empty_dense = \<lparr>d_id = [], d_lat = [], d_lon = [], d_keys_vals = [], d_denseinfo = None\<rparr>"

definition empty_group :: PrimitiveGroup where
  "empty_group = \<lparr>g_nodes = [], g_dense = None, g_ways = [], g_relations = []\<rparr>"

definition empty_primitive_block :: PrimitiveBlock where
  "empty_primitive_block = \<lparr>b_stringtable = [], b_primitivegroup = [],
     b_granularity = 100, b_date_granularity = 1000\<rparr>"

definition empty_header_block :: HeaderBlock where
  "empty_header_block = \<lparr>h_required_features = [], h_writingprogram = [], h_bbox = None\<rparr>"

definition empty_blob :: Blob where
  "empty_blob = \<lparr>blob_raw = None, blob_zlib_data = None, blob_raw_size = None\<rparr>"

subsection \<open>The writer object\<close>

text \<open>
  The data members of class \<open>PBF\<close> and, of its base class, \<open>m_file\<close> and
  \<open>m_generator\<close>. The pointers \<open>pbf_nodes\<close>, \<open>pbf_ways\<close> and \<open>pbf_relations\<close> into the
  groups of \<open>pbf_primitive_block\<close> are indices into its group list (\<open>None\<close> is NULL).
  \<open>pbf_blob\<close>, \<open>pbf_blob_header\<close> and the compression buffer are cleared or overwritten
  by every use and are local to \<open>store_blob\<close> here.
\<close>

record PBF =
  m_file :: OSMFile
  m_generator :: string
  pbf_header_block :: HeaderBlock
  pbf_primitive_block :: PrimitiveBlock
  pbf_nodes :: "nat option"
  pbf_ways :: "nat option"
  pbf_relations :: "nat option"
  m_location_granularity :: int
  m_date_granularity :: int
  m_use_dense_format :: bool
  m_use_compression :: bool
  m_should_add_metadata :: bool
  m_add_visible :: bool
  primitive_block_contents :: "16 word"
  primitive_block_size :: "32 word"
  string_table :: StringTable
  m_delta_id :: "64 word Delta"
  m_delta_lat :: "64 word Delta"
  m_delta_lon :: "64 word Delta"
  m_delta_timestamp :: "64 word Delta"
  m_delta_changeset :: "64 word Delta"
  m_delta_uid :: "64 word Delta"
  m_delta_user_sid :: "32 word Delta"

definition max_block_contents :: nat where
  "max_block_contents = 8000"

definition buffer_fill_percent :: "32 word" where
  "buffer_fill_percent = 95"

text \<open>
  Modelled from the spec: the constants \<open>OSMPBF::max_uncompressed_blob_size\<close> and
  \<open>OSMPBF::lonlat_resolution\<close> come from osmpbf.h. Section 3 and the comment at
  \<open>max_block_contents\<close>: 32 MiB; section 4.3: coordinates are scaled by \<open>10^9\<close>.
\<close>

definition max_uncompressed_blob_size :: nat where
  "max_uncompressed_blob_size = 32 * 1024 * 1024"

definition lonlat_resolution :: real where
  "lonlat_resolution = 1000 * 1000 * 1000"

text \<open>The constructor \<open>PBF(file)\<close>; the base class sets \<open>m_file\<close> and \<open>m_generator\<close>.\<close>

definition PBF_new :: "OSMFile \<Rightarrow> string \<Rightarrow> PBF" where
  "PBF_new file generator =
     \<lparr>m_file = file, m_generator = generator,
      pbf_header_block = empty_header_block,
      pbf_primitive_block = empty_primitive_block,
      pbf_nodes = None, pbf_ways = None, pbf_relations = None,
      m_location_granularity = b_granularity empty_primitive_block,
      m_date_granularity = b_date_granularity empty_primitive_block,
      m_use_dense_format = True, m_use_compression = True,
      m_should_add_metadata = True,
      m_add_visible = has_multiple_object_versions file,
      primitive_block_contents = 0, primitive_block_size = 0,
      string_table = string_table_empty,
      m_delta_id = Delta 0, m_delta_lat = Delta 0, m_delta_lon = Delta 0,
      m_delta_timestamp = Delta 0, m_delta_changeset = Delta 0, m_delta_uid = Delta 0,
      m_delta_user_sid = Delta 0\<rparr>"

subsection \<open>Blob writing\<close>

definition zlib_compress :: "env \<Rightarrow> byte list \<Rightarrow> error + byte list" where
  "zlib_compress env data =
     (case deflate env data of None \<Rightarrow> Inl CompressionFailed | Some out \<Rightarrow> Inr out)"

text \<open>\<open>htonl\<close> and the four bytes that \<open>write(fd, &sz, sizeof(sz))\<close> reads from it.\<close>

definition htonl_bytes :: "32 word \<Rightarrow> byte list" where
  "htonl_bytes w = [ucast (drop_bit 24 w), ucast (drop_bit 16 w), ucast (drop_bit 8 w), ucast w]"

definition store_blob :: "env \<Rightarrow> string \<Rightarrow> message \<Rightarrow> PBF \<Rightarrow> error + PBF" where
  "store_blob env type msg s =
     (let data = serialize_msg env msg
      in case (if m_use_compression s
               then (case zlib_compress env data of
                       Inl e \<Rightarrow> Inl e
                     | Inr out \<Rightarrow> Inr (empty_blob\<lparr>blob_zlib_data := Some out\<rparr>))
               else Inr (empty_blob\<lparr>blob_raw := Some data\<rparr>)) of
           Inl e \<Rightarrow> Inl e
         | Inr blob \<Rightarrow>
             (let pbf_blob = blob\<lparr>blob_raw_size := Some (of_nat (length data))\<rparr>;
                  data' = serialize_blob env pbf_blob;
                  pbf_blob_header = \<lparr>bh_type = type, bh_datasize = of_nat (length data')\<rparr>;
                  blobhead = serialize_blob_header env pbf_blob_header;
                  sz = htonl_bytes (of_nat (length blobhead));
                  (r1, fd1) = fd_write (f_fd (m_file s)) sz
              in if r1 < 0 then Inl IoFailed
                 else (let (r2, fd2) = fd_write fd1 blobhead
                       in if r2 < 0 then Inl IoFailed
                          else (let (r3, fd3) = fd_write fd2 data'
                                in if r3 < 0 then Inl IoFailed
                                   else Inr (s\<lparr>m_file := (m_file s)\<lparr>f_fd := fd3\<rparr>\<rparr>)))))"

subsection \<open>Mapping interim string ids to final ones\<close>

text \<open>
  \<open>string_table.map_string_id\<close> is the parameter \<open>msi\<close> of the loops. The source stores
  whatever the map returns and has no branch for an input outside the domain of the
  map; what the map returns there, the specification leaves open. The model stops
  the rewrite there with \<open>InvalidStringId\<close>, so that a result of the rewrite never rests
  on an answer the specification does not give; a map that answers every input goes
  through all the loops.
\<close>

definition map_sid :: "(nat \<Rightarrow> nat option) \<Rightarrow> nat \<Rightarrow> error + nat" where
  "map_sid msi i = (case msi i of None \<Rightarrow> Inl InvalidStringId | Some f \<Rightarrow> Inr f)"

text \<open>The tag loop of \<open>map_common_string_ids\<close>: \<open>i\<close> runs over \<open>keys\<close>, and \<open>vals\<close> has
  the same length (\<open>apply_common_info\<close> adds to both together).\<close>

fun map_tags :: "(nat \<Rightarrow> nat option) \<Rightarrow> nat list \<Rightarrow> nat list \<Rightarrow> error + (nat list \<times> nat list)" where
  "map_tags msi (k # ks) (v # vs) =
     (case map_sid msi k of
        Inl e \<Rightarrow> Inl e
      | Inr k' \<Rightarrow>
          (case map_sid msi v of
             Inl e \<Rightarrow> Inl e
           | Inr v' \<Rightarrow>
               (case map_tags msi ks vs of
                  Inl e \<Rightarrow> Inl e
                | Inr (ks', vs') \<Rightarrow> Inr (k' # ks', v' # vs'))))"
| "map_tags msi ks vs = Inr (ks, vs)"

definition map_common_string_ids ::
  "(nat \<Rightarrow> nat option) \<Rightarrow> 'a PBFObject_scheme \<Rightarrow> error + 'a PBFObject_scheme" where
  "map_common_string_ids msi obj =
     (case (case p_info obj of
              None \<Rightarrow> Inr obj
            | Some info \<Rightarrow>
                (case map_sid msi (i_user_sid info) of
                   Inl e \<Rightarrow> Inl e
                 | Inr u \<Rightarrow> Inr (obj\<lparr>p_info := Some (info\<lparr>i_user_sid := u\<rparr>)\<rparr>))) of
        Inl e \<Rightarrow> Inl e
      | Inr obj1 \<Rightarrow>
          (case map_tags msi (p_keys obj1) (p_vals obj1) of
             Inl e \<Rightarrow> Inl e
           | Inr (ks, vs) \<Rightarrow> Inr (obj1\<lparr>p_keys := ks, p_vals := vs\<rparr>)))"

fun map_objects ::
  "(nat \<Rightarrow> nat option) \<Rightarrow> 'a PBFObject_scheme list \<Rightarrow> error + 'a PBFObject_scheme list" where
  "map_objects msi [] = Inr []"
| "map_objects msi (x # xs) =
     (case map_common_string_ids msi x of
        Inl e \<Rightarrow> Inl e
      | Inr x' \<Rightarrow>
          (case map_objects msi xs of Inl e \<Rightarrow> Inl e | Inr xs' \<Rightarrow> Inr (x' # xs')))"

text \<open>The loop over \<open>keys_vals\<close>: \<open>uint16_t sid = dense->keys_vals(i)\<close>.\<close>

fun map_keys_vals :: "(nat \<Rightarrow> nat option) \<Rightarrow> nat list \<Rightarrow> error + nat list" where
  "map_keys_vals msi [] = Inr []"
| "map_keys_vals msi (kv # kvs) =
     (let sid = kv mod 65536
      in case (if sid > 0 then map_sid msi sid else Inr kv) of
           Inl e \<Rightarrow> Inl e
         | Inr kv' \<Rightarrow>
             (case map_keys_vals msi kvs of Inl e \<Rightarrow> Inl e | Inr kvs' \<Rightarrow> Inr (kv' # kvs')))"

text \<open>The loop over \<open>DenseInfo.user_sid\<close>:
  \<open>uint16_t user_sid = string_table.map_string_id(denseinfo->user_sid(i))\<close>, then
  \<open>m_delta_user_sid.update(user_sid)\<close> on the \<open>uint32_t\<close> tracker.\<close>

fun map_dense_user_sid ::
  "(nat \<Rightarrow> nat option) \<Rightarrow> 32 word Delta \<Rightarrow> int list \<Rightarrow> error + (int list \<times> 32 word Delta)" where
  "map_dense_user_sid msi d [] = Inr ([], d)"
| "map_dense_user_sid msi d (u # us) =
     (case map_sid msi (nat u) of
        Inl e \<Rightarrow> Inl e
      | Inr f \<Rightarrow>
          (let user_sid = f mod 65536;
               (dv, d1) = delta_update (of_nat user_sid) d
           in case map_dense_user_sid msi d1 us of
                Inl e \<Rightarrow> Inl e
              | Inr (us', d2) \<Rightarrow> Inr (sint dv # us', d2)))"

text \<open>The loop over \<open>roles_sid\<close> of one relation.\<close>

fun map_roles :: "(nat \<Rightarrow> nat option) \<Rightarrow> nat list \<Rightarrow> error + nat list" where
  "map_roles msi [] = Inr []"
| "map_roles msi (r # rs) =
     (case map_sid msi r of
        Inl e \<Rightarrow> Inl e
      | Inr r' \<Rightarrow> (case map_roles msi rs of Inl e \<Rightarrow> Inl e | Inr rs' \<Rightarrow> Inr (r' # rs')))"

fun map_relations :: "(nat \<Rightarrow> nat option) \<Rightarrow> PBFRelation list \<Rightarrow> error + PBFRelation list" where
  "map_relations msi [] = Inr []"
| "map_relations msi (r # rs) =
     (case map_common_string_ids msi r of
        Inl e \<Rightarrow> Inl e
      | Inr r1 \<Rightarrow>
          (case map_roles msi (pr_roles_sid r1) of
             Inl e \<Rightarrow> Inl e
           | Inr roles \<Rightarrow>
               (case map_relations msi rs of
                  Inl e \<Rightarrow> Inl e
                | Inr rs' \<Rightarrow> Inr (r1\<lparr>pr_roles_sid := roles\<rparr> # rs'))))"

text \<open>The dense part of the nodes group: \<open>keys_vals\<close>, then \<open>denseinfo\<close> if present.\<close>

definition map_dense ::
  "(nat \<Rightarrow> nat option) \<Rightarrow> 32 word Delta \<Rightarrow> DenseNodes \<Rightarrow> error + (DenseNodes \<times> 32 word Delta)" where
  "map_dense msi d dense =
     (case map_keys_vals msi (d_keys_vals dense) of
        Inl e \<Rightarrow> Inl e
      | Inr kvs \<Rightarrow>
          (let dense1 = dense\<lparr>d_keys_vals := kvs\<rparr>
           in case d_denseinfo dense1 of
                None \<Rightarrow> Inr (dense1, d)
              | Some denseinfo \<Rightarrow>
                  (case map_dense_user_sid msi d (di_user_sid denseinfo) of
                     Inl e \<Rightarrow> Inl e
                   | Inr (us, d') \<Rightarrow>
                       Inr (dense1\<lparr>d_denseinfo := Some (denseinfo\<lparr>di_user_sid := us\<rparr>)\<rparr>, d'))))"

definition map_nodes_group ::
  "(nat \<Rightarrow> nat option) \<Rightarrow> 32 word Delta \<Rightarrow> PrimitiveGroup \<Rightarrow> error + (PrimitiveGroup \<times> 32 word Delta)" where
  "map_nodes_group msi d g =
     (case map_objects msi (g_nodes g) of
        Inl e \<Rightarrow> Inl e
      | Inr ns \<Rightarrow>
          (let g1 = g\<lparr>g_nodes := ns\<rparr>
           in case g_dense g1 of
                None \<Rightarrow> Inr (g1, d)
              | Some dense \<Rightarrow>
                  (case map_dense msi d dense of
                     Inl e \<Rightarrow> Inl e
                   | Inr (dense', d') \<Rightarrow> Inr (g1\<lparr>g_dense := Some dense'\<rparr>, d'))))"

definition map_ways_group :: "(nat \<Rightarrow> nat option) \<Rightarrow> PrimitiveGroup \<Rightarrow> error + PrimitiveGroup" where
  "map_ways_group msi g =
     (case map_objects msi (g_ways g) of Inl e \<Rightarrow> Inl e | Inr ws \<Rightarrow> Inr (g\<lparr>g_ways := ws\<rparr>))"

definition map_relations_group :: "(nat \<Rightarrow> nat option) \<Rightarrow> PrimitiveGroup \<Rightarrow> error + PrimitiveGroup" where
  "map_relations_group msi g =
     (case map_relations msi (g_relations g) of
        Inl e \<Rightarrow> Inl e
      | Inr rs \<Rightarrow> Inr (g\<lparr>g_relations := rs\<rparr>))"

definition group_at :: "PBF \<Rightarrow> nat \<Rightarrow> PrimitiveGroup" where
  "group_at s gi = b_primitivegroup (pbf_primitive_block s) ! gi"

definition set_group :: "nat \<Rightarrow> PrimitiveGroup \<Rightarrow> PBF \<Rightarrow> PBF" where
  "set_group gi g s =
     s\<lparr>pbf_primitive_block := (pbf_primitive_block s)
         \<lparr>b_primitivegroup := (b_primitivegroup (pbf_primitive_block s))[gi := g]\<rparr>\<rparr>"

text \<open>The three parts of \<open>map_string_ids\<close>, one per group pointer.\<close>

definition map_nodes_part :: "(nat \<Rightarrow> nat option) \<Rightarrow> PBF \<Rightarrow> error + PBF" where
  "map_nodes_part msi s =
     (case pbf_nodes s of
        None \<Rightarrow> Inr s
      | Some gi \<Rightarrow>
          (case map_nodes_group msi (m_delta_user_sid s) (group_at s gi) of
             Inl e \<Rightarrow> Inl e
           | Inr (g, d) \<Rightarrow> Inr ((set_group gi g s)\<lparr>m_delta_user_sid := d\<rparr>)))"

definition map_ways_part :: "(nat \<Rightarrow> nat option) \<Rightarrow> PBF \<Rightarrow> error + PBF" where
  "map_ways_part msi s =
     (case pbf_ways s of
        None \<Rightarrow> Inr s
      | Some gi \<Rightarrow>
          (case map_ways_group msi (group_at s gi) of
             Inl e \<Rightarrow> Inl e
           | Inr g \<Rightarrow> Inr (set_group gi g s)))"

definition map_relations_part :: "(nat \<Rightarrow> nat option) \<Rightarrow> PBF \<Rightarrow> error + PBF" where
  "map_relations_part msi s =
     (case pbf_relations s of
        None \<Rightarrow> Inr s
      | Some gi \<Rightarrow>
          (case map_relations_group msi (group_at s gi) of
             Inl e \<Rightarrow> Inl e
           | Inr g \<Rightarrow> Inr (set_group gi g s)))"

definition map_string_ids :: "(nat \<Rightarrow> nat option) \<Rightarrow> PBF \<Rightarrow> error + PBF" where
  "map_string_ids msi s =
     (case map_nodes_part msi s of
        Inl e \<Rightarrow> Inl e
      | Inr s1 \<Rightarrow>
          (case map_ways_part msi s1 of
             Inl e \<Rightarrow> Inl e
           | Inr s2 \<Rightarrow> map_relations_part msi s2))"

subsection \<open>MetaData helpers\<close>

text \<open>C's \<open>round\<close> (halves away from zero) and the conversion of a \<open>double\<close> to an
  integer (towards zero), on exact reals.\<close>

definition c_round :: "real \<Rightarrow> int" where
  "c_round x = (if 0 \<le> x then \<lfloor>x + 1 / 2\<rfloor> else \<lceil>x - 1 / 2\<rceil>)"

definition c_trunc :: "real \<Rightarrow> int" where
  "c_trunc x = (if 0 \<le> x then \<lfloor>x\<rfloor> else \<lceil>x\<rceil>)"

definition lonlat2int :: "PBF \<Rightarrow> real \<Rightarrow> 64 word" where
  "lonlat2int s lonlat =
     word_of_int (c_round (lonlat * lonlat_resolution / real_of_int (m_location_granularity s)))"

definition timestamp2int :: "PBF \<Rightarrow> int \<Rightarrow> 64 word" where
  "timestamp2int s timestamp =
     word_of_int (c_round (real_of_int timestamp * (1000 / real_of_int (m_date_granularity s))))"

text \<open>The tag loop of \<open>apply_common_info\<close>: key and value of each tag are recorded in
  turn and added to \<open>keys\<close> and \<open>vals\<close>.\<close>

fun record_tags :: "(string \<times> string) list \<Rightarrow> StringTable \<Rightarrow> (nat list \<times> nat list) \<times> StringTable" where
  "record_tags [] st = (([], []), st)"
| "record_tags ((k, v) # ts) st =
     (let (ki, st1) = record_string k st;
          (vi, st2) = record_string v st1;
          ((ks, vs), st3) = record_tags ts st2
      in ((ki # ks, vi # vs), st3))"

definition apply_common_info ::
  "PBF \<Rightarrow> 'a OSMObject_scheme \<Rightarrow> 'b PBFObject_scheme \<Rightarrow> 'b PBFObject_scheme \<times> StringTable" where
  "apply_common_info s obj out =
     (let out1 = out\<lparr>p_id := o_id obj\<rparr>;
          ((ks, vs), st1) = record_tags (o_tags obj) (string_table s);
          out2 = out1\<lparr>p_keys := p_keys out1 @ ks, p_vals := p_vals out1 @ vs\<rparr>
      in if m_should_add_metadata s
         then (let out_info = (case p_info out2 of None \<Rightarrow> empty_info | Some i \<Rightarrow> i);
                   out_info1 = (if m_add_visible s
                                then out_info\<lparr>i_visible := Some (o_visible obj)\<rparr>
                                else out_info);
                   (usid, st2) = record_string (o_user obj) st1;
                   out_info2 = out_info1\<lparr>i_version := o_version obj,
                     i_timestamp := timestamp2int s (o_timestamp obj),
                     i_changeset := o_changeset obj,
                     i_uid := o_uid obj,
                     i_user_sid := usid\<rparr>
               in (out2\<lparr>p_info := Some out_info2\<rparr>, st2))
         else (out2, st1))"

subsection \<open>High-level block writing\<close>

definition store_header_block :: "env \<Rightarrow> PBF \<Rightarrow> error + PBF" where
  "store_header_block env s =
     (case store_blob env ''OSMHeader'' (HeaderMsg (pbf_header_block s)) s of
        Inl e \<Rightarrow> Inl e
      | Inr s1 \<Rightarrow> Inr (s1\<lparr>pbf_header_block := empty_header_block\<rparr>))"

text \<open>The first half of \<open>store_primitive_block\<close>, up to and including
  \<open>map_string_ids()\<close>: the block as it is handed to \<open>store_blob\<close>.\<close>

definition finish_primitive_block :: "PBF \<Rightarrow> error + PBF" where
  "finish_primitive_block s =
     (let (strs, st) = store_stringtable (string_table s);
          s1 = s\<lparr>pbf_primitive_block := (pbf_primitive_block s)
                 \<lparr>b_granularity := m_location_granularity s,
                  b_date_granularity := m_date_granularity s,
                  b_stringtable := strs\<rparr>,
                string_table := st\<rparr>
      in map_string_ids (map_string_id st) s1)"

definition store_primitive_block :: "env \<Rightarrow> PBF \<Rightarrow> error + PBF" where
  "store_primitive_block env s =
     (case finish_primitive_block s of
        Inl e \<Rightarrow> Inl e
      | Inr s2 \<Rightarrow>
          (case store_blob env ''OSMData'' (PrimitiveMsg (pbf_primitive_block s2)) s2 of
             Inl e \<Rightarrow> Inl e
           | Inr s3 \<Rightarrow>
               Inr (s3\<lparr>pbf_primitive_block := empty_primitive_block,
                       string_table := string_table_empty,
                       m_delta_id := delta_clear,
                       m_delta_lat := delta_clear,
                       m_delta_lon := delta_clear,
                       m_delta_timestamp := delta_clear,
                       m_delta_changeset := delta_clear,
                       m_delta_uid := delta_clear,
                       m_delta_user_sid := delta_clear,
                       primitive_block_contents := 0,
                       primitive_block_size := 0,
                       pbf_nodes := None,
                       pbf_ways := None,
                       pbf_relations := None\<rparr>)))"

text \<open>The threshold is computed in \<open>uint32_t\<close>, as the cast of the source makes it.\<close>

definition fill_threshold :: "32 word" where
  "fill_threshold = of_nat max_uncompressed_blob_size * buffer_fill_percent div 100"

definition check_block_contents_counter :: "env \<Rightarrow> PBF \<Rightarrow> error + PBF" where
  "check_block_contents_counter env s =
     (case (if max_block_contents \<le> unat (primitive_block_contents s)
            then store_primitive_block env s
            else if fill_threshold < primitive_block_size s
            then store_primitive_block env s
            else Inr s) of
        Inl e \<Rightarrow> Inl e
      | Inr s1 \<Rightarrow> Inr (s1\<lparr>primitive_block_contents := primitive_block_contents s1 + 1\<rparr>))"

subsection \<open>Block content writing\<close>

text \<open>The three writers dereference the group pointer that \<open>node\<close>, \<open>way\<close> and
  \<open>relation\<close> have set just before; the NULL case is not reached from them.\<close>

definition write_node :: "OSMNode \<Rightarrow> PBF \<Rightarrow> PBF" where
  "write_node node s =
     (case pbf_nodes s of
        None \<Rightarrow> s
      | Some gi \<Rightarrow>
          (let (pbf_node, st) = apply_common_info s node empty_node;
               pbf_node1 = pbf_node\<lparr>pn_lon := lonlat2int s (n_lon node),
                                     pn_lat := lonlat2int s (n_lat node)\<rparr>;
               g = group_at s gi
           in set_group gi (g\<lparr>g_nodes := g_nodes g @ [pbf_node1]\<rparr>) (s\<lparr>string_table := st\<rparr>)))"

text \<open>The tag loop of \<open>write_dense_node\<close>: key and value into \<open>keys_vals\<close> in turn.\<close>

fun record_keys_vals :: "(string \<times> string) list \<Rightarrow> StringTable \<Rightarrow> nat list \<times> StringTable" where
  "record_keys_vals [] st = ([], st)"
| "record_keys_vals ((k, v) # ts) st =
     (let (ki, st1) = record_string k st;
          (vi, st2) = record_string v st1;
          (kvs, st3) = record_keys_vals ts st2
      in (ki # vi # kvs, st3))"

definition write_dense_node :: "OSMNode \<Rightarrow> PBF \<Rightarrow> PBF" where
  "write_dense_node node s =
     (case pbf_nodes s of
        None \<Rightarrow> s
      | Some gi \<Rightarrow>
          (let g = group_at s gi;
               dense = (case g_dense g of None \<Rightarrow> empty_dense | Some d \<Rightarrow> d);
               (did, delta_id) = delta_update (o_id node) (m_delta_id s);
               (dlon, delta_lon) = delta_update (lonlat2int s (n_lon node)) (m_delta_lon s);
               (dlat, delta_lat) = delta_update (lonlat2int s (n_lat node)) (m_delta_lat s);
               (kvs, st1) = record_keys_vals (o_tags node) (string_table s);
               dense1 = dense\<lparr>d_id := d_id dense @ [did],
                              d_lon := d_lon dense @ [dlon],
                              d_lat := d_lat dense @ [dlat],
                              d_keys_vals := d_keys_vals dense @ kvs @ [0]\<rparr>;
               s1 = s\<lparr>m_delta_id := delta_id, m_delta_lon := delta_lon,
                      m_delta_lat := delta_lat, string_table := st1\<rparr>
           in if m_should_add_metadata s
              then (let denseinfo = (case d_denseinfo dense1 of
                                       None \<Rightarrow> empty_denseinfo | Some di \<Rightarrow> di);
                        (dts, delta_timestamp) =
                           delta_update (timestamp2int s (o_timestamp node)) (m_delta_timestamp s);
                        (dcs, delta_changeset) =
                           delta_update (o_changeset node) (m_delta_changeset s);
                        (duid, delta_uid) = delta_update (o_uid node) (m_delta_uid s);
                        (usid, st2) = record_string (o_user node) st1;
                        denseinfo1 = denseinfo\<lparr>
                           di_version := di_version denseinfo @ [o_version node],
                           di_visible := (if m_add_visible s
                                          then di_visible denseinfo @ [o_visible node]
                                          else di_visible denseinfo),
                           di_timestamp := di_timestamp denseinfo @ [dts],
                           di_changeset := di_changeset denseinfo @ [dcs],
                           di_uid := di_uid denseinfo @ [duid],
                           di_user_sid := di_user_sid denseinfo @ [int usid]\<rparr>
                    in set_group gi (g\<lparr>g_dense := Some (dense1\<lparr>d_denseinfo := Some denseinfo1\<rparr>)\<rparr>)
                         (s1\<lparr>m_delta_timestamp := delta_timestamp,
                             m_delta_changeset := delta_changeset,
                             m_delta_uid := delta_uid,
                             string_table := st2\<rparr>))
              else set_group gi (g\<lparr>g_dense := Some dense1\<rparr>) s1))"

text \<open>The loop over the node references of a way, through the local tracker.\<close>

fun delta_refs :: "64 word Delta \<Rightarrow> 64 word list \<Rightarrow> 64 word list" where
  "delta_refs d [] = []"
| "delta_refs d (r # rs) = (let (dv, d1) = delta_update r d in dv # delta_refs d1 rs)"

definition write_way :: "env \<Rightarrow> OSMWay \<Rightarrow> PBF \<Rightarrow> PBF" where
  "write_way env way s =
     (case pbf_ways s of
        None \<Rightarrow> s
      | Some gi \<Rightarrow>
          (let (pbf_way, st) = apply_common_info s way empty_way;
               delta_id = Delta 0;
               pbf_way1 = pbf_way\<lparr>pw_refs := pw_refs pbf_way @ delta_refs delta_id (w_nodes way)\<rparr>;
               g = group_at s gi
           in set_group gi (g\<lparr>g_ways := g_ways g @ [pbf_way1]\<rparr>)
                (s\<lparr>string_table := st,
                   primitive_block_size :=
                     primitive_block_size s + of_nat (way_byte_size env pbf_way1)\<rparr>)))"

text \<open>The loop over the members of a relation; the \<open>default\<close> branch of the switch
  throws.\<close>

fun write_members ::
  "RelationMember list \<Rightarrow> 64 word Delta \<Rightarrow> StringTable \<Rightarrow> PBFRelation \<Rightarrow>
     error + (PBFRelation \<times> StringTable)" where
  "write_members [] d st r = Inr (r, st)"
| "write_members (mem # mems) d st r =
     (let (rid, st1) = record_string (m_role mem) st;
          (dv, d1) = delta_update (m_ref mem) d;
          r1 = r\<lparr>pr_roles_sid := pr_roles_sid r @ [rid], pr_memids := pr_memids r @ [dv]\<rparr>
      in if m_type mem = CHR ''n''
         then write_members mems d1 st1 (r1\<lparr>pr_types := pr_types r1 @ [NODE]\<rparr>)
         else if m_type mem = CHR ''w''
         then write_members mems d1 st1 (r1\<lparr>pr_types := pr_types r1 @ [WAY]\<rparr>)
         else if m_type mem = CHR ''r''
         then write_members mems d1 st1 (r1\<lparr>pr_types := pr_types r1 @ [RELATION]\<rparr>)
         else Inl InvalidMemberType)"

definition write_relation :: "env \<Rightarrow> OSMRelation \<Rightarrow> PBF \<Rightarrow> error + PBF" where
  "write_relation env relation s =
     (case pbf_relations s of
        None \<Rightarrow> Inr s
      | Some gi \<Rightarrow>
          (let (pbf_relation, st) = apply_common_info s relation empty_relation;
               delta_id = Delta 0
           in case write_members (r_members relation) delta_id st pbf_relation of
                Inl e \<Rightarrow> Inl e
              | Inr (pbf_relation1, st1) \<Rightarrow>
                  (let g = group_at s gi
                   in Inr (set_group gi (g\<lparr>g_relations := g_relations g @ [pbf_relation1]\<rparr>)
                        (s\<lparr>string_table := st1,
                           primitive_block_size :=
                             primitive_block_size s
                               + of_nat (relation_byte_size env pbf_relation1)\<rparr>)))))"

subsection \<open>The public interface\<close>

definition add_primitivegroup :: "PBF \<Rightarrow> nat \<times> PBF" where
  "add_primitivegroup s =
     (length (b_primitivegroup (pbf_primitive_block s)),
      s\<lparr>pbf_primitive_block := (pbf_primitive_block s)
          \<lparr>b_primitivegroup := b_primitivegroup (pbf_primitive_block s) @ [empty_group]\<rparr>\<rparr>)"

definition init :: "env \<Rightarrow> Meta \<Rightarrow> PBF \<Rightarrow> error + PBF" where
  "init env meta s =
     (let hb = pbf_header_block s;
          hb1 = hb\<lparr>h_required_features := h_required_features hb @ [''OsmSchema-V0.6'']\<rparr>;
          hb2 = (if m_use_dense_format s
                 then hb1\<lparr>h_required_features := h_required_features hb1 @ [''DenseNodes'']\<rparr>
                 else hb1);
          hb3 = (if f_type (m_file s) = History
                 then hb2\<lparr>h_required_features :=
                            h_required_features hb2 @ [''HistoricalInformation'']\<rparr>
                 else hb2);
          hb4 = hb3\<lparr>h_writingprogram := m_generator s\<rparr>;
          hb5 = (case bounds meta of
                   None \<Rightarrow> hb4
                 | Some (bl_lon, bl_lat, tr_lon, tr_lat) \<Rightarrow>
                     hb4\<lparr>h_bbox := Some
                       \<lparr>bb_left = word_of_int (c_trunc (bl_lon * lonlat_resolution)),
                        bb_bottom = word_of_int (c_trunc (bl_lat * lonlat_resolution)),
                        bb_right = word_of_int (c_trunc (tr_lon * lonlat_resolution)),
                        bb_top = word_of_int (c_trunc (tr_lat * lonlat_resolution))\<rparr>\<rparr>)
      in store_header_block env (s\<lparr>pbf_header_block := hb5\<rparr>))"

definition node :: "env \<Rightarrow> OSMNode \<Rightarrow> PBF \<Rightarrow> error + PBF" where
  "node env n s =
     (case check_block_contents_counter env s of
        Inl e \<Rightarrow> Inl e
      | Inr s1 \<Rightarrow>
          (let s2 = (case pbf_nodes s1 of
                       None \<Rightarrow> (let (gi, s') = add_primitivegroup s1 in s'\<lparr>pbf_nodes := Some gi\<rparr>)
                     | Some gi \<Rightarrow> s1)
           in if m_use_dense_format s2 then Inr (write_dense_node n s2)
              else Inr (write_node n s2)))"

definition way :: "env \<Rightarrow> OSMWay \<Rightarrow> PBF \<Rightarrow> error + PBF" where
  "way env w s =
     (case check_block_contents_counter env s of
        Inl e \<Rightarrow> Inl e
      | Inr s1 \<Rightarrow>
          (let s2 = (case pbf_ways s1 of
                       None \<Rightarrow> (let (gi, s') = add_primitivegroup s1 in s'\<lparr>pbf_ways := Some gi\<rparr>)
                     | Some gi \<Rightarrow> s1)
           in Inr (write_way env w s2)))"

definition relation :: "env \<Rightarrow> OSMRelation \<Rightarrow> PBF \<Rightarrow> error + PBF" where
  "relation env r s =
     (case check_block_contents_counter env s of
        Inl e \<Rightarrow> Inl e
      | Inr s1 \<Rightarrow>
          (let s2 = (case pbf_relations s1 of
                       None \<Rightarrow>
                         (let (gi, s') = add_primitivegroup s1 in s'\<lparr>pbf_relations := Some gi\<rparr>)
                     | Some gi \<Rightarrow> s1)
           in write_relation env r s2))"

definition final :: "env \<Rightarrow> PBF \<Rightarrow> error + PBF" where
  "final env s =
     (case (if 0 < primitive_block_contents s then store_primitive_block env s else Inr s) of
        Inl e \<Rightarrow> Inl e
      | Inr s1 \<Rightarrow> Inr (s1\<lparr>m_file := (m_file s1)\<lparr>f_closed := True\<rparr>\<rparr>))"

text \<open>A run of \<open>node\<close> calls, stopping at the first exception.\<close>

fun nodes_run :: "env \<Rightarrow> OSMNode list \<Rightarrow> PBF \<Rightarrow> error + PBF" where
  "nodes_run env [] s = Inr s"
| "nodes_run env (n # ns) s =
     (case node env n s of Inl e \<Rightarrow> Inl e | Inr s1 \<Rightarrow> nodes_run env ns s1)"

text \<open>A run of calls of \<open>node\<close>, \<open>way\<close> and \<open>relation\<close> in any order, stopping at the
  first exception.\<close>

datatype entity = ENode OSMNode | EWay OSMWay | ERelation OSMRelation

fun ingest :: "env \<Rightarrow> entity \<Rightarrow> PBF \<Rightarrow> error + PBF" where
  "ingest env (ENode n) s = node env n s"
| "ingest env (EWay w) s = way env w s"
| "ingest env (ERelation r) s = relation env r s"


section \<open>What the specification says, and inputs to run the writer on\<close>

text \<open>The protocol enum value of a member's kind tag.\<close>

definition member_kind :: "char \<Rightarrow> MemberType option" where
  "member_kind c =
     (if c = CHR ''n'' then Some NODE
      else if c = CHR ''w'' then Some WAY
      else if c = CHR ''r'' then Some RELATION
      else None)"

text \<open>A stand-in for the external libraries, a file whose descriptor accepts every
  write, and the writer as its constructor leaves it.\<close>

definition env0 :: env where
  "env0 = \<lparr>serialize_msg = (\<lambda>m. [1, 2, 3]), serialize_blob = (\<lambda>b. [4, 5]),
     serialize_blob_header = (\<lambda>h. [6]), deflate = (\<lambda>d. Some d),
     way_byte_size = (\<lambda>w. 10), relation_byte_size = (\<lambda>r. 10)\<rparr>"

definition file0 :: OSMFile where
  "file0 = \<lparr>f_type = OSM, f_fd = \<lparr>fd_written = [], fd_script = []\<rparr>, f_closed = False\<rparr>"

definition pbf0 :: PBF where
  "pbf0 = PBF_new file0 ''osmium''"

text \<open>Scenario S5 of the specification, and a relation with a member of unknown kind.\<close>

definition rel99 :: OSMRelation where
  "rel99 = \<lparr>o_id = 99, o_tags = [], o_version = 1, o_timestamp = 0, o_changeset = 1,
     o_uid = 1, o_user = ''bob'', o_visible = True,
     r_members = [\<lparr>m_type = CHR ''w'', m_ref = 10, m_role = ''outer''\<rparr>,
                  \<lparr>m_type = CHR ''n'', m_ref = 5, m_role = ''via''\<rparr>,
                  \<lparr>m_type = CHR ''r'', m_ref = 3, m_role = ''''\<rparr>]\<rparr>"

definition rel_bad :: OSMRelation where
  "rel_bad = \<lparr>o_id = 7, o_tags = [], o_version = 1, o_timestamp = 0, o_changeset = 1,
     o_uid = 1, o_user = ''bob'', o_visible = True,
     r_members = [\<lparr>m_type = CHR ''w'', m_ref = 10, m_role = ''outer''\<rparr>,
                  \<lparr>m_type = CHR ''x'', m_ref = 5, m_role = ''via''\<rparr>]\<rparr>"

definition pbf_rel :: PBF where
  "pbf_rel = pbf0\<lparr>pbf_primitive_block := empty_primitive_block\<lparr>b_primitivegroup := [empty_group]\<rparr>,
                  pbf_relations := Some 0\<rparr>"

text \<open>
  Sections 4.5 and 4.6 of the specification: the blob of a message carries its bytes
  raw or deflated, with the uncompressed size; a frame is the 4-byte big-endian length
  of the serialised blob header, the serialised blob header (type and size of the
  serialised blob), and the serialised blob.
\<close>

definition blob_of :: "env \<Rightarrow> bool \<Rightarrow> message \<Rightarrow> Blob option" where
  "blob_of env compress msg =
     (let data = serialize_msg env msg
      in if compress
         then (case deflate env data of
                 None \<Rightarrow> None
               | Some z \<Rightarrow> Some \<lparr>blob_raw = None, blob_zlib_data = Some z,
                                 blob_raw_size = Some (of_nat (length data))\<rparr>)
         else Some \<lparr>blob_raw = Some data, blob_zlib_data = None,
                     blob_raw_size = Some (of_nat (length data))\<rparr>)"

definition be32 :: "nat \<Rightarrow> byte list" where
  "be32 n = [of_nat (n div 2 ^ 24 mod 256), of_nat (n div 2 ^ 16 mod 256),
             of_nat (n div 2 ^ 8 mod 256), of_nat (n mod 256)]"

definition frame_bytes :: "env \<Rightarrow> string \<Rightarrow> Blob \<Rightarrow> byte list" where
  "frame_bytes env type blob =
     (let b = serialize_blob env blob;
          h = serialize_blob_header env \<lparr>bh_type = type, bh_datasize = of_nat (length b)\<rparr>
      in be32 (length h) @ h @ b)"

definition file_append :: "byte list \<Rightarrow> OSMFile \<Rightarrow> OSMFile" where
  "file_append bytes file = file\<lparr>f_fd := (f_fd file)\<lparr>fd_written := fd_written (f_fd file) @ bytes\<rparr>\<rparr>"

text \<open>Section 4.7: the required features of the header block, and its bounding box.\<close>

definition required_features_of :: "bool \<Rightarrow> bool \<Rightarrow> string list" where
  "required_features_of dense history =
     ''OsmSchema-V0.6'' # (if dense then [''DenseNodes''] else [])
       @ (if history then [''HistoricalInformation''] else [])"

definition bbox_of :: "Meta \<Rightarrow> HeaderBBox option" where
  "bbox_of meta =
     (case bounds meta of
        None \<Rightarrow> None
      | Some (bl_lon, bl_lat, tr_lon, tr_lat) \<Rightarrow>
          Some \<lparr>bb_left = word_of_int (c_trunc (bl_lon * 10 ^ 9)),
                bb_bottom = word_of_int (c_trunc (bl_lat * 10 ^ 9)),
                bb_right = word_of_int (c_trunc (tr_lon * 10 ^ 9)),
                bb_top = word_of_int (c_trunc (tr_lat * 10 ^ 9))\<rparr>)"

definition meta0 :: Meta where
  "meta0 = \<lparr>bounds = None\<rparr>"

text \<open>A file whose descriptor accepts only two bytes of the next write.\<close>

definition pbf_short :: PBF where
  "pbf_short = pbf0\<lparr>m_file := file0\<lparr>f_fd := \<lparr>fd_written = [], fd_script = [2]\<rparr>\<rparr>\<rparr>"

text \<open>Scenario S2 of the specification: one sparse node.\<close>

definition pbf_sparse :: PBF where
  "pbf_sparse = pbf0\<lparr>m_use_dense_format := False\<rparr>"

definition node42 :: OSMNode where
  "node42 = \<lparr>o_id = 42, o_tags = [(''amenity'', ''cafe'')], o_version = 1,
     o_timestamp = 1000000000, o_changeset = 7, o_uid = 3, o_user = ''alice'',
     o_visible = True, n_lon = 13.5, n_lat = 52.5\<rparr>"

text \<open>A node with a tag whose value is the empty string.\<close>

definition node_empty_value :: OSMNode where
  "node_empty_value = \<lparr>o_id = 1, o_tags = [(''name'', '''')], o_version = 1,
     o_timestamp = 0, o_changeset = 1, o_uid = 1, o_user = ''alice'',
     o_visible = True, n_lon = 0, n_lat = 0\<rparr>"

text \<open>
  Delta encoding of a column, as a list function: each value minus the one before it,
  the first minus \<open>p\<close>. (Section 4.1, applied along a column.)
\<close>

fun delta_list :: "'a::minus \<Rightarrow> 'a list \<Rightarrow> 'a list" where
  "delta_list p [] = []"
| "delta_list p (v # vs) = (v - p) # delta_list v vs"

text \<open>The final id of an interim id, narrowed to 16 bits, as the 32-bit value the
  \<open>user_sid\<close> tracker receives.\<close>

definition final_sid16 :: "(nat \<Rightarrow> nat option) \<Rightarrow> int \<Rightarrow> 32 word" where
  "final_sid16 msi u = word_of_nat (the (msi (nat u)) mod 65536)"

text \<open>What the loop over \<open>keys_vals\<close> makes of one entry.\<close>

definition keys_vals_entry :: "(nat \<Rightarrow> nat option) \<Rightarrow> nat \<Rightarrow> nat" where
  "keys_vals_entry msi kv = (if kv mod 65536 = 0 then kv else the (msi (kv mod 65536)))"

text \<open>
  The map from interim to final ids of a block with 65537 strings of which the one
  recorded last is the most frequent and the others follow in the order of their
  recording.
\<close>

definition msi_big :: "nat \<Rightarrow> nat option" where
  "msi_big i = (if i = 65537 then Some 1 else if 1 \<le> i \<and> i \<le> 65536 then Some (i + 1) else None)"

subsection \<open>The block in flight\<close>

text \<open>
  The group pointers of a writer are sound when each one that is set is an index of
  the group list and no two of them are the same index: \<open>node\<close>, \<open>way\<close> and
  \<open>relation\<close> set a pointer to the group they have just added.
\<close>

definition ptrs_ok :: "PBF \<Rightarrow> bool" where
  "ptrs_ok s =
     ((case pbf_nodes s of None \<Rightarrow> True
       | Some i \<Rightarrow> i < length (b_primitivegroup (pbf_primitive_block s))
                   \<and> pbf_ways s \<noteq> Some i \<and> pbf_relations s \<noteq> Some i)
      \<and> (case pbf_ways s of None \<Rightarrow> True
          | Some i \<Rightarrow> i < length (b_primitivegroup (pbf_primitive_block s))
                      \<and> pbf_relations s \<noteq> Some i)
      \<and> (case pbf_relations s of None \<Rightarrow> True
          | Some i \<Rightarrow> i < length (b_primitivegroup (pbf_primitive_block s))))"

text \<open>The dense nodes of the block in flight and their info columns (empty when the
  block has none yet).\<close>

definition dense_of :: "PBF \<Rightarrow> DenseNodes" where
  "dense_of s =
     (case pbf_nodes s of
        None \<Rightarrow> empty_dense
      | Some gi \<Rightarrow> (case g_dense (group_at s gi) of None \<Rightarrow> empty_dense | Some d \<Rightarrow> d))"

definition denseinfo_of :: "PBF \<Rightarrow> DenseInfo" where
  "denseinfo_of s = (case d_denseinfo (dense_of s) of None \<Rightarrow> empty_denseinfo | Some di \<Rightarrow> di)"

text \<open>The flush check fires.\<close>

definition flush_due :: "PBF \<Rightarrow> bool" where
  "flush_due s = (8000 \<le> unat (primitive_block_contents s)
                  \<or> 31876710 < unat (primitive_block_size s))"


definition node_a :: OSMNode where
  "node_a = \<lparr>o_id = 10, o_tags = [(''highway'', ''stop'')], o_version = 1,
     o_timestamp = 100, o_changeset = 5, o_uid = 9, o_user = ''alice'',
     o_visible = True, n_lon = 1, n_lat = 2\<rparr>"

definition node_b :: OSMNode where
  "node_b = \<lparr>o_id = 12, o_tags = [(''amenity'', ''cafe'')], o_version = 2,
     o_timestamp = 90, o_changeset = 6, o_uid = 9, o_user = ''alice'',
     o_visible = True, n_lon = 3, n_lat = 1\<rparr>"

subsection \<open>What a block of nodes needs for its flush to go through\<close>

text \<open>
  The interim ids of a string table are 1..N in the order of recording. An id stored in
  the block is sound when it is one of them; a \<open>keys_vals\<close> entry may also be the 0 of a
  separator.
\<close>

definition st_ok :: "StringTable \<Rightarrow> bool" where
  "st_ok st = (map (\<lambda>(s, iid, c). iid) (m_strings st) = [1..<Suc (length (m_strings st))])"

definition sid_ok :: "nat \<Rightarrow> nat \<Rightarrow> bool" where
  "sid_ok N i = (1 \<le> i \<and> i \<le> N)"

definition pbf_object_ok :: "nat \<Rightarrow> 'a PBFObject_scheme \<Rightarrow> bool" where
  "pbf_object_ok N obj =
     (list_all (sid_ok N) (p_keys obj) \<and> list_all (sid_ok N) (p_vals obj)
      \<and> (case p_info obj of None \<Rightarrow> True | Some i \<Rightarrow> sid_ok N (i_user_sid i)))"

definition dense_ok :: "nat \<Rightarrow> DenseNodes \<Rightarrow> bool" where
  "dense_ok N d =
     (list_all (\<lambda>kv. kv \<le> N) (d_keys_vals d)
      \<and> (case d_denseinfo d of
            None \<Rightarrow> True
          | Some di \<Rightarrow> list_all (\<lambda>u. 1 \<le> u \<and> nat u \<le> N) (di_user_sid di)))"

definition nodes_group_ok :: "nat \<Rightarrow> PrimitiveGroup \<Rightarrow> bool" where
  "nodes_group_ok N g =
     (list_all (pbf_object_ok N) (g_nodes g)
      \<and> (case g_dense g of None \<Rightarrow> True | Some d \<Rightarrow> dense_ok N d)
      \<and> g_ways g = [] \<and> g_relations g = [])"

text \<open>The number of nodes of a group and of a block, sparse and dense ones.\<close>

definition node_count_group :: "PrimitiveGroup \<Rightarrow> nat" where
  "node_count_group g =
     length (g_nodes g) + (case g_dense g of None \<Rightarrow> 0 | Some d \<Rightarrow> length (d_id d))"

definition block_node_count :: "PrimitiveBlock \<Rightarrow> nat" where
  "block_node_count b = sum_list (map node_count_group (b_primitivegroup b))"

text \<open>
  A block in flight that holds \<open>k\<close> nodes and nothing else: no ways or relations group,
  no group at all before the first node, then the one nodes group, with sound ids.
\<close>

definition filling :: "nat \<Rightarrow> PBF \<Rightarrow> bool" where
  "filling k s =
     (pbf_ways s = None \<and> pbf_relations s = None \<and> st_ok (string_table s)
      \<and> (case pbf_nodes s of
            None \<Rightarrow> k = 0 \<and> b_primitivegroup (pbf_primitive_block s) = []
          | Some gi \<Rightarrow>
              gi = 0 \<and> length (b_primitivegroup (pbf_primitive_block s)) = 1
              \<and> node_count_group (group_at s 0) = k
              \<and> nodes_group_ok (length (m_strings (string_table s))) (group_at s 0)))"

text \<open>A node all of whose strings are non-empty; an environment in which a flush
  meets no failure of zlib or of a write.\<close>

definition strings_ok :: "OSMNode \<Rightarrow> bool" where
  "strings_ok n = (o_user n \<noteq> [] \<and> list_all (\<lambda>(k, v). k \<noteq> [] \<and> v \<noteq> []) (o_tags n))"

definition io_ok :: "env \<Rightarrow> PBF \<Rightarrow> bool" where
  "io_ok env s = (fd_script (f_fd (m_file s)) = []
                  \<and> (m_use_compression s \<longrightarrow> (\<forall>d. deflate env d \<noteq> None)))"

text \<open>The settings of the writer, which no operation changes.\<close>

definition cfg :: "PBF \<Rightarrow> bool \<times> bool \<times> bool \<times> bool \<times> int \<times> int" where
  "cfg s = (m_use_dense_format s, m_use_compression s, m_should_add_metadata s,
            m_add_visible s, m_location_granularity s, m_date_granularity s)"

text \<open>The two steps of \<open>node\<close> after the flush check.\<close>

definition alloc_nodes :: "PBF \<Rightarrow> PBF" where
  "alloc_nodes s =
     (case pbf_nodes s of
        None \<Rightarrow> (let (gi, s') = add_primitivegroup s in s'\<lparr>pbf_nodes := Some gi\<rparr>)
      | Some gi \<Rightarrow> s)"

definition put_node :: "OSMNode \<Rightarrow> PBF \<Rightarrow> PBF" where
  "put_node n s = (if m_use_dense_format s then write_dense_node n s else write_node n s)"

text \<open>The group allocation of \<open>way\<close> and \<open>relation\<close> after the flush check.\<close>

definition alloc_ways :: "PBF \<Rightarrow> PBF" where
  "alloc_ways s =
     (case pbf_ways s of
        None \<Rightarrow> (let (gi, s') = add_primitivegroup s in s'\<lparr>pbf_ways := Some gi\<rparr>)
      | Some gi \<Rightarrow> s)"

definition alloc_relations :: "PBF \<Rightarrow> PBF" where
  "alloc_relations s =
     (case pbf_relations s of
        None \<Rightarrow> (let (gi, s') = add_primitivegroup s in s'\<lparr>pbf_relations := Some gi\<rparr>)
      | Some gi \<Rightarrow> s)"

subsection \<open>Delta-encoded columns\<close>


definition col_tracks :: "'a::{minus,zero} list \<Rightarrow> 'a Delta \<Rightarrow> 'a list \<Rightarrow> bool" where
  "col_tracks col d vs = (col = delta_list 0 vs \<and> d = Delta (last (0 # vs)))"

text \<open>
  The dense columns of the block in flight track the nodes \<open>ns\<close>: the six columns that
  \<open>write_dense_node\<close> delta-encodes hold the delta encoding from zero of the ingested
  (scaled) values, the info columns only if metadata is written; the \<open>user_sid\<close>
  column holds one interim id per node and its tracker, used at the flush only, is
  at zero.
\<close>

definition tracks :: "OSMNode list \<Rightarrow> PBF \<Rightarrow> bool" where
  "tracks ns s =
     (col_tracks (d_id (dense_of s)) (m_delta_id s) (map o_id ns)
      \<and> col_tracks (d_lon (dense_of s)) (m_delta_lon s) (map (\<lambda>n. lonlat2int s (n_lon n)) ns)
      \<and> col_tracks (d_lat (dense_of s)) (m_delta_lat s) (map (\<lambda>n. lonlat2int s (n_lat n)) ns)
      \<and> (if m_should_add_metadata s
          then col_tracks (di_timestamp (denseinfo_of s)) (m_delta_timestamp s)
                 (map (\<lambda>n. timestamp2int s (o_timestamp n)) ns)
               \<and> col_tracks (di_changeset (denseinfo_of s)) (m_delta_changeset s)
                   (map o_changeset ns)
               \<and> col_tracks (di_uid (denseinfo_of s)) (m_delta_uid s) (map o_uid ns)
               \<and> length (di_user_sid (denseinfo_of s)) = length ns
          else True)
      \<and> m_delta_user_sid s = Delta 0)"



fun one_block :: "env \<Rightarrow> entity list \<Rightarrow> PBF \<Rightarrow> bool" where
  "one_block env [] s = True"
| "one_block env (e # es) s =
     (\<not> flush_due s
      \<and> (case ingest env e s of Inl x \<Rightarrow> False | Inr s1 \<Rightarrow> one_block env es s1))"






section \<open>Lemmas\<close>

subsection \<open>Groups\<close>

lemma group_at_set_group:
  "gi < length (b_primitivegroup (pbf_primitive_block s)) \<Longrightarrow> group_at (set_group gi g s) gi = g"
  by (simp add: group_at_def set_group_def)

subsection \<open>Relation members\<close>

lemma write_members_step:
  "write_members (mem # mems) d st r =
     (case member_kind (m_type mem) of
        None \<Rightarrow> Inl InvalidMemberType
      | Some t \<Rightarrow>
          write_members mems (Delta (m_ref mem)) (snd (record_string (m_role mem) st))
            (r\<lparr>pr_roles_sid := pr_roles_sid r @ [fst (record_string (m_role mem) st)],
               pr_memids := pr_memids r @ [m_ref mem - prev d],
               pr_types := pr_types r @ [t]\<rparr>))"
  by (simp add: member_kind_def Let_def delta_update_def split: prod.splits)

lemma write_members_Inr:
  "write_members mems d st r = Inr (r', st') \<Longrightarrow>
     pr_types r' = pr_types r @ map (\<lambda>m. the (member_kind (m_type m))) mems
     \<and> (\<forall>m \<in> set mems. member_kind (m_type m) \<noteq> None)"
proof (induction mems arbitrary: d st r)
  case Nil
  then show ?case by simp
next
  case (Cons mem mems)
  from Cons.prems obtain t where t: "member_kind (m_type mem) = Some t"
    by (cases "member_kind (m_type mem)") (simp_all add: write_members_step del: write_members.simps)
  with Cons.prems Cons.IH show ?case
    by (fastforce simp: write_members_step simp del: write_members.simps)
qed

lemma write_members_Inl:
  "write_members mems d st r = Inl e \<Longrightarrow>
     e = InvalidMemberType \<and> (\<exists>m \<in> set mems. member_kind (m_type m) = None)"
proof (induction mems arbitrary: d st r)
  case Nil
  then show ?case by simp
next
  case (Cons mem mems)
  show ?case
  proof (cases "member_kind (m_type mem)")
    case None
    with Cons.prems show ?thesis
      by (simp add: write_members_step del: write_members.simps)
  next
    case (Some t)
    with Cons.prems Cons.IH show ?thesis
      by (fastforce simp: write_members_step simp del: write_members.simps)
  qed
qed

subsection \<open>Frames\<close>

lemma byte_of_nat:
  "k + 8 \<le> 32 \<Longrightarrow>
     (ucast (drop_bit k (word_of_nat n :: 32 word)) :: 8 word) = word_of_nat (n div 2 ^ k mod 256)"
proof -
  assume k: "k + 8 \<le> 32"
  have "unat (ucast (drop_bit k (word_of_nat n :: 32 word)) :: 8 word)
        = take_bit 8 (drop_bit k (take_bit 32 n))"
    by (simp add: unsigned_ucast_eq unat_drop_bit_eq unat_of_nat take_bit_nat_def)
  also have "\<dots> = take_bit 8 (drop_bit k n)"
    using k by (auto simp: drop_bit_take_bit min_def)
  also have "\<dots> = n div 2 ^ k mod 256"
    by (simp add: take_bit_nat_def drop_bit_nat_def)
  finally have "unat (ucast (drop_bit k (word_of_nat n :: 32 word)) :: 8 word)
        = unat (word_of_nat (n div 2 ^ k mod 256) :: 8 word)"
    by (simp add: unat_of_nat)
  then show ?thesis
    by (simp only: word_unat_eq_iff)
qed

lemma htonl_bytes_be32: "htonl_bytes (of_nat n) = be32 n"
  using byte_of_nat [of 24 n] byte_of_nat [of 16 n] byte_of_nat [of 8 n] byte_of_nat [of 0 n]
  by (simp add: htonl_bytes_def be32_def)

lemma fd_write_all:
  "fd_script fd = [] \<Longrightarrow> fd_write fd buf = (int (length buf), fd\<lparr>fd_written := fd_written fd @ buf\<rparr>)"
  by (simp add: fd_write_def)

lemma store_blob_ok:
  assumes "fd_script (f_fd (m_file s)) = []"
    and "blob_of env (m_use_compression s) msg = Some blob"
  shows "store_blob env type msg s = Inr (s\<lparr>m_file := file_append (frame_bytes env type blob) (m_file s)\<rparr>)"
  using assms
  by (auto simp: store_blob_def blob_of_def zlib_compress_def Let_def fd_write_all empty_blob_def
        frame_bytes_def file_append_def htonl_bytes_be32 split: option.splits if_splits)

subsection \<open>Running the writer on a given input\<close>

lemmas run_defs =
  node_def check_block_contents_counter_def max_block_contents_def fill_threshold_def
  add_primitivegroup_def write_node_def write_dense_node_def apply_common_info_def
  record_string_def group_at_def set_group_def lonlat2int_def timestamp2int_def
  lonlat_resolution_def c_round_def delta_update_def
  finish_primitive_block_def store_stringtable_def sort_strings_def map_string_ids_def
  map_nodes_part_def map_ways_part_def map_relations_part_def
  map_nodes_group_def map_ways_group_def map_relations_group_def map_dense_def
  map_common_string_ids_def map_sid_def map_string_id_def
  relation_def write_relation_def
  pbf0_def PBF_new_def file0_def string_table_empty_def has_multiple_object_versions_def
  empty_primitive_block_def empty_group_def empty_node_def empty_info_def empty_dense_def
  empty_denseinfo_def empty_relation_def
  less_eq_prod_def less_prod_def Let_def

subsection \<open>The loops of \<open>map_string_ids\<close>\<close>

lemma map_keys_vals_eq:
  "map_keys_vals msi kvs =
     (if \<forall>kv \<in> set kvs. kv mod 65536 = 0 \<or> msi (kv mod 65536) \<noteq> None
      then Inr (map (keys_vals_entry msi) kvs)
      else Inl InvalidStringId)"
  by (induction kvs) (auto simp: map_sid_def keys_vals_entry_def Let_def split: option.splits sum.splits)

lemma map_dense_user_sid_eq:
  "map_dense_user_sid msi d us =
     (if \<forall>u \<in> set us. msi (nat u) \<noteq> None
      then Inr (map sint (delta_list (prev d) (map (final_sid16 msi) us)),
                Delta (last (prev d # map (final_sid16 msi) us)))
      else Inl InvalidStringId)"
proof (induction us arbitrary: d)
  case Nil
  then show ?case by simp
next
  case (Cons u us)
  show ?case
  proof (cases "msi (nat u)")
    case None
    then show ?thesis by (simp add: map_sid_def)
  next
    case (Some f)
    then have fs: "word_of_nat (f mod 65536) = final_sid16 msi u"
      by (simp add: final_sid16_def)
    show ?thesis
      using Some Cons.IH [of "Delta (final_sid16 msi u)"]
      by (auto simp: map_sid_def delta_update_def fs Let_def)
  qed
qed



subsection \<open>The flush rewrite and the nodes group\<close>


lemma set_group_fields [simp]:
  "pbf_nodes (set_group gi g s) = pbf_nodes s"
  "pbf_ways (set_group gi g s) = pbf_ways s"
  "pbf_relations (set_group gi g s) = pbf_relations s"
  "m_delta_user_sid (set_group gi g s) = m_delta_user_sid s"
  "string_table (set_group gi g s) = string_table s"
  "length (b_primitivegroup (pbf_primitive_block (set_group gi g s)))
     = length (b_primitivegroup (pbf_primitive_block s))"
  by (simp_all add: set_group_def)



subsection \<open>Recording strings\<close>









subsection \<open>Interim ids are sound\<close>

lemma st_ok_empty: "st_ok string_table_empty"
  by (simp add: st_ok_def string_table_empty_def)

lemma map_iid_update:
  "map_of xs s = Some (iid, c) \<Longrightarrow>
     map (\<lambda>(s, iid, c). iid) (AList.update s (iid, c') xs) = map (\<lambda>(s, iid, c). iid) xs"
  by (induction xs) (auto split: if_splits)

lemma length_update_present:
  "map_of xs k = Some v0 \<Longrightarrow> length (AList.update k v xs) = length xs"
  by (induction xs) (auto split: if_splits)

lemma st_ok_lookup:
  assumes "st_ok st" and "map_of (m_strings st) s = Some (iid, c)"
  shows "1 \<le> iid \<and> iid \<le> length (m_strings st)"
proof -
  have "(s, iid, c) \<in> set (m_strings st)"
    using assms(2) by (auto dest: map_of_SomeD)
  then have "iid \<in> set (map (\<lambda>(s, iid, c). iid) (m_strings st))"
    by force
  then have "iid \<in> set [1..<Suc (length (m_strings st))]"
    using assms(1) by (simp only: st_ok_def)
  then have "iid \<in> {1..<Suc (length (m_strings st))}"
    by (simp only: set_upt)
  then show ?thesis by simp
qed

lemma record_string_ok:
  assumes "st_ok st"
  shows "st_ok (snd (record_string s st))"
    and "length (m_strings st) \<le> length (m_strings (snd (record_string s st)))"
    and "fst (record_string s st) \<le> length (m_strings (snd (record_string s st)))"
    and "s \<noteq> [] \<Longrightarrow> 1 \<le> fst (record_string s st)"
proof -
  show "st_ok (snd (record_string s st))"
  proof (cases "s = []")
    case True
    then show ?thesis using assms by (simp add: record_string_def)
  next
    case False
    show ?thesis
    proof (cases "map_of (m_strings st) s")
      case None
      have "[1..<Suc (Suc (length (m_strings st)))]
              = [1..<Suc (length (m_strings st))] @ [Suc (length (m_strings st))]"
        by (rule upt_Suc_append) simp
      then show ?thesis
        using assms False None
        by (simp add: record_string_def st_ok_def Let_def del: upt_Suc)
    next
      case (Some p)
      obtain iid c where p: "p = (iid, c)" by (cases p)
      show ?thesis
        using assms False Some p
        by (simp add: record_string_def st_ok_def map_iid_update length_update_present
              del: upt_Suc)
    qed
  qed
  show "length (m_strings st) \<le> length (m_strings (snd (record_string s st)))"
    by (auto simp: record_string_def Let_def length_update_present split: option.splits)
  show "fst (record_string s st) \<le> length (m_strings (snd (record_string s st)))"
  proof (cases "s = []")
    case True
    then show ?thesis by (simp add: record_string_def)
  next
    case False
    show ?thesis
    proof (cases "map_of (m_strings st) s")
      case None
      then show ?thesis using False by (simp add: record_string_def Let_def)
    next
      case (Some p)
      obtain iid c where p: "p = (iid, c)" by (cases p)
      show ?thesis
        using False Some p st_ok_lookup [OF assms, of s iid c]
        by (simp add: record_string_def length_update_present)
    qed
  qed
  show "s \<noteq> [] \<Longrightarrow> 1 \<le> fst (record_string s st)"
  proof -
    assume ne: "s \<noteq> []"
    show ?thesis
    proof (cases "map_of (m_strings st) s")
      case None
      then show ?thesis using ne by (simp add: record_string_def Let_def)
    next
      case (Some p)
      obtain iid c where p: "p = (iid, c)" by (cases p)
      show ?thesis
        using ne Some p st_ok_lookup [OF assms, of s iid c]
        by (simp add: record_string_def)
    qed
  qed
qed

lemma map_string_id_defined:
  assumes "st_ok st" and "sid_ok (length (m_strings st)) i"
  shows "map_string_id (snd (store_stringtable st)) i \<noteq> None"
proof -
  let ?sorted = "sort_strings (m_strings st)"
  have len: "length ?sorted = length (m_strings st)"
    by (simp add: sort_strings_def)
  have "set (map (\<lambda>(s, iid, c). iid) ?sorted) = set (map (\<lambda>(s, iid, c). iid) (m_strings st))"
    by (simp add: sort_strings_def)
  also have "\<dots> = set [1..<Suc (length (m_strings st))]"
    using assms(1) by (simp only: st_ok_def)
  also have "\<dots> = {1..<Suc (length (m_strings st))}"
    by (simp only: set_upt)
  finally have "i \<in> set (map (\<lambda>(s, iid, c). iid) ?sorted)"
    using assms(2) by (auto simp: sid_ok_def)
  moreover have "length (map (\<lambda>(s, iid, c). iid) ?sorted) = length [1..<length ?sorted + 1]"
    by (simp del: upt_Suc)
  ultimately have "map_of (zip (map (\<lambda>(s, iid, c). iid) ?sorted) [1..<length ?sorted + 1]) i \<noteq> None"
    by (simp only: map_of_zip_is_None not_not)
  then show ?thesis
    using assms(2) by (simp add: map_string_id_def store_stringtable_def Let_def sid_ok_def)
qed

lemma sid_ok_mono: "sid_ok N i \<Longrightarrow> N \<le> N' \<Longrightarrow> sid_ok N' i"
  by (simp add: sid_ok_def)

lemma list_all_sid_ok_mono: "list_all (sid_ok N) xs \<Longrightarrow> N \<le> N' \<Longrightarrow> list_all (sid_ok N') xs"
  by (induction xs) (auto intro: sid_ok_mono)

lemma list_all_le_mono:
  "list_all (\<lambda>kv. kv \<le> N) xs \<Longrightarrow> N \<le> N' \<Longrightarrow> list_all (\<lambda>kv. kv \<le> (N'::nat)) xs"
  by (induction xs) auto

lemma list_all_user_mono:
  "list_all (\<lambda>u. 1 \<le> u \<and> nat u \<le> N) xs \<Longrightarrow> N \<le> N' \<Longrightarrow>
     list_all (\<lambda>u. (1::int) \<le> u \<and> nat u \<le> N') xs"
  by (induction xs) auto

lemma pbf_object_ok_mono: "pbf_object_ok N obj \<Longrightarrow> N \<le> N' \<Longrightarrow> pbf_object_ok N' obj"
  by (auto simp: pbf_object_ok_def intro: list_all_sid_ok_mono sid_ok_mono split: option.splits)

lemma list_all_object_mono:
  "list_all (pbf_object_ok N) xs \<Longrightarrow> N \<le> N' \<Longrightarrow> list_all (pbf_object_ok N') xs"
  by (induction xs) (auto intro: pbf_object_ok_mono)

lemma dense_ok_mono: "dense_ok N d \<Longrightarrow> N \<le> N' \<Longrightarrow> dense_ok N' d"
  by (auto simp: dense_ok_def intro: list_all_le_mono list_all_user_mono split: option.splits)

lemma nodes_group_ok_mono: "nodes_group_ok N g \<Longrightarrow> N \<le> N' \<Longrightarrow> nodes_group_ok N' g"
  by (auto simp: nodes_group_ok_def intro: list_all_object_mono dense_ok_mono split: option.splits)

lemma record_keys_vals_ok:
  assumes "st_ok st"
  shows "st_ok (snd (record_keys_vals ts st))
         \<and> length (m_strings st) \<le> length (m_strings (snd (record_keys_vals ts st)))
         \<and> list_all (\<lambda>kv. kv \<le> length (m_strings (snd (record_keys_vals ts st))))
             (fst (record_keys_vals ts st))"
  using assms
proof (induction ts arbitrary: st)
  case Nil
  then show ?case by simp
next
  case (Cons t ts)
  obtain k v where t: "t = (k, v)" by (cases t)
  let ?st1 = "snd (record_string k st)"
  let ?st2 = "snd (record_string v ?st1)"
  let ?st3 = "snd (record_keys_vals ts ?st2)"
  note a = record_string_ok [OF Cons.prems, of k]
  note b = record_string_ok [OF a(1), of v]
  note c = Cons.IH [OF b(1)]
  have e: "record_keys_vals (t # ts) st
           = (fst (record_string k st) # fst (record_string v ?st1) # fst (record_keys_vals ts ?st2),
              ?st3)"
    by (simp add: t Let_def split_beta)
  have k: "fst (record_string k st) \<le> length (m_strings ?st3)"
    using a(3) b(2) c by linarith
  have v: "fst (record_string v ?st1) \<le> length (m_strings ?st3)"
    using b(3) c by linarith
  have l: "length (m_strings st) \<le> length (m_strings ?st3)"
    using a(2) b(2) c by linarith
  show ?case
    using c k v l by (simp add: e)
qed

lemma record_tags_ok:
  assumes "st_ok st" and "list_all (\<lambda>(k, v). k \<noteq> [] \<and> v \<noteq> []) ts"
  shows "st_ok (snd (record_tags ts st))
         \<and> length (m_strings st) \<le> length (m_strings (snd (record_tags ts st)))
         \<and> list_all (sid_ok (length (m_strings (snd (record_tags ts st)))))
             (fst (fst (record_tags ts st)))
         \<and> list_all (sid_ok (length (m_strings (snd (record_tags ts st)))))
             (snd (fst (record_tags ts st)))"
  using assms
proof (induction ts arbitrary: st)
  case Nil
  then show ?case by simp
next
  case (Cons t ts)
  obtain k v where t: "t = (k, v)" by (cases t)
  from Cons.prems(2) t have ne: "k \<noteq> []" "v \<noteq> []"
    and rest: "list_all (\<lambda>(k, v). k \<noteq> [] \<and> v \<noteq> []) ts"
    by simp_all
  let ?st1 = "snd (record_string k st)"
  let ?st2 = "snd (record_string v ?st1)"
  let ?st3 = "snd (record_tags ts ?st2)"
  note a = record_string_ok [OF Cons.prems(1), of k]
  note b = record_string_ok [OF a(1), of v]
  note c = Cons.IH [OF b(1) rest]
  have e: "record_tags (t # ts) st
           = ((fst (record_string k st) # fst (fst (record_tags ts ?st2)),
               fst (record_string v ?st1) # snd (fst (record_tags ts ?st2))),
              ?st3)"
    by (simp add: t Let_def split_beta)
  have k: "sid_ok (length (m_strings ?st3)) (fst (record_string k st))"
    using a(3) a(4) [OF ne(1)] b(2) c by (simp add: sid_ok_def)
  have v: "sid_ok (length (m_strings ?st3)) (fst (record_string v ?st1))"
    using b(3) b(4) [OF ne(2)] c by (simp add: sid_ok_def)
  have l: "length (m_strings st) \<le> length (m_strings ?st3)"
    using a(2) b(2) c by linarith
  show ?case
    using c k v l by (simp add: e)
qed

subsection \<open>Filling a block with nodes\<close>

lemma filling_write_dense_node:
  assumes f: "filling k s" and p: "pbf_nodes s = Some gi" and so: "strings_ok n"
  shows "filling (Suc k) (write_dense_node n s)"
proof -
  let ?N0 = "length (m_strings (string_table s))"
  from f p have gi0: "gi = 0"
    and len: "length (b_primitivegroup (pbf_primitive_block s)) = 1"
    and cnt: "node_count_group (group_at s 0) = k"
    and ok: "nodes_group_ok ?N0 (group_at s 0)"
    and w: "pbf_ways s = None" and r: "pbf_relations s = None"
    and sto: "st_ok (string_table s)"
    by (auto simp: filling_def)
  obtain kvs st1 where rk: "record_keys_vals (o_tags n) (string_table s) = (kvs, st1)"
    by (cases "record_keys_vals (o_tags n) (string_table s)")
  obtain usid st2 where ru: "record_string (o_user n) st1 = (usid, st2)"
    by (cases "record_string (o_user n) st1")
  have k1: "st_ok st1" "?N0 \<le> length (m_strings st1)"
    "list_all (\<lambda>kv. kv \<le> length (m_strings st1)) kvs"
    using record_keys_vals_ok [OF sto, of "o_tags n"] rk by simp_all
  have u2: "st_ok st2" "length (m_strings st1) \<le> length (m_strings st2)"
    "usid \<le> length (m_strings st2)" "1 \<le> usid"
    using record_string_ok [OF k1(1), of "o_user n"] ru so by (simp_all add: strings_ok_def)
  have ok1: "nodes_group_ok (length (m_strings st1)) (group_at s 0)"
    using ok k1(2) by (rule nodes_group_ok_mono)
  have ok2: "nodes_group_ok (length (m_strings st2)) (group_at s 0)"
    using ok1 u2(2) by (rule nodes_group_ok_mono)
  have kv2: "list_all (\<lambda>kv. kv \<le> length (m_strings st2)) kvs"
    using k1(3) u2(2) by (rule list_all_le_mono)
  show ?thesis
  proof (cases "m_should_add_metadata s")
    case True
    then show ?thesis
      using p gi0 len cnt ok2 w r u2 kv2
      by (auto simp: filling_def write_dense_node_def rk ru Let_def group_at_def set_group_def
            delta_update_def node_count_group_def nodes_group_ok_def dense_ok_def
            empty_dense_def empty_denseinfo_def
            split: option.splits)
  next
    case False
    then show ?thesis
      using p gi0 len cnt ok1 w r k1
      by (auto simp: filling_def write_dense_node_def rk Let_def group_at_def set_group_def
            delta_update_def node_count_group_def nodes_group_ok_def dense_ok_def
            empty_dense_def empty_denseinfo_def
            split: option.splits)
  qed
qed

lemma filling_write_node:
  assumes f: "filling k s" and p: "pbf_nodes s = Some gi" and so: "strings_ok n"
  shows "filling (Suc k) (write_node n s)"
proof -
  let ?N0 = "length (m_strings (string_table s))"
  from f p have gi0: "gi = 0"
    and len: "length (b_primitivegroup (pbf_primitive_block s)) = 1"
    and cnt: "node_count_group (group_at s 0) = k"
    and ok: "nodes_group_ok ?N0 (group_at s 0)"
    and w: "pbf_ways s = None" and r: "pbf_relations s = None"
    and sto: "st_ok (string_table s)"
    by (auto simp: filling_def)
  obtain ks vs st1 where rt: "record_tags (o_tags n) (string_table s) = ((ks, vs), st1)"
    by (cases "record_tags (o_tags n) (string_table s)") auto
  obtain usid st2 where ru: "record_string (o_user n) st1 = (usid, st2)"
    by (cases "record_string (o_user n) st1")
  have tg: "list_all (\<lambda>(k, v). k \<noteq> [] \<and> v \<noteq> []) (o_tags n)"
    using so by (simp add: strings_ok_def)
  have k1: "st_ok st1" "?N0 \<le> length (m_strings st1)"
    "list_all (sid_ok (length (m_strings st1))) ks"
    "list_all (sid_ok (length (m_strings st1))) vs"
    using record_tags_ok [OF sto tg] rt by simp_all
  have u2: "st_ok st2" "length (m_strings st1) \<le> length (m_strings st2)"
    "usid \<le> length (m_strings st2)" "1 \<le> usid"
    using record_string_ok [OF k1(1), of "o_user n"] ru so by (simp_all add: strings_ok_def)
  have ok1: "nodes_group_ok (length (m_strings st1)) (group_at s 0)"
    using ok k1(2) by (rule nodes_group_ok_mono)
  have ok2: "nodes_group_ok (length (m_strings st2)) (group_at s 0)"
    using ok1 u2(2) by (rule nodes_group_ok_mono)
  have ks2: "list_all (sid_ok (length (m_strings st2))) ks"
    using k1(3) u2(2) by (rule list_all_sid_ok_mono)
  have vs2: "list_all (sid_ok (length (m_strings st2))) vs"
    using k1(4) u2(2) by (rule list_all_sid_ok_mono)
  show ?thesis
  proof (cases "m_should_add_metadata s")
    case True
    then show ?thesis
      using p gi0 len cnt ok2 w r u2 ks2 vs2
      by (auto simp: filling_def write_node_def apply_common_info_def rt ru Let_def group_at_def
            set_group_def node_count_group_def nodes_group_ok_def pbf_object_ok_def
            empty_node_def empty_info_def sid_ok_def
            split: option.splits)
  next
    case False
    then show ?thesis
      using p gi0 len cnt ok1 w r k1
      by (auto simp: filling_def write_node_def apply_common_info_def rt Let_def group_at_def
            set_group_def node_count_group_def nodes_group_ok_def pbf_object_ok_def
            empty_node_def empty_info_def
            split: option.splits)
  qed
qed

lemma filling_alloc_nodes:
  assumes "filling k s"
  shows "filling k (alloc_nodes s)" and "pbf_nodes (alloc_nodes s) = Some 0"
  using assms
  by (auto simp: filling_def alloc_nodes_def add_primitivegroup_def group_at_def
        node_count_group_def nodes_group_ok_def empty_group_def split: option.splits)

lemma filling_put_node:
  assumes "filling k s" and "strings_ok n"
  shows "filling (Suc k) (put_node n (alloc_nodes s))"
  using filling_alloc_nodes [OF assms(1)] assms(2)
  by (simp add: put_node_def filling_write_dense_node filling_write_node)

lemma node_alt:
  "node env n s =
     (case check_block_contents_counter env s of
        Inl e \<Rightarrow> Inl e
      | Inr s1 \<Rightarrow> Inr (put_node n (alloc_nodes s1)))"
  by (auto simp: node_def put_node_def alloc_nodes_def Let_def split: sum.splits option.splits)

lemma put_node_frame:
  "primitive_block_contents (put_node n (alloc_nodes s)) = primitive_block_contents s"
  "primitive_block_size (put_node n (alloc_nodes s)) = primitive_block_size s"
  "m_file (put_node n (alloc_nodes s)) = m_file s"
  "cfg (put_node n (alloc_nodes s)) = cfg s"
  "m_delta_user_sid (put_node n (alloc_nodes s)) = m_delta_user_sid s"
  by (auto simp: put_node_def alloc_nodes_def add_primitivegroup_def write_dense_node_def
        write_node_def set_group_def cfg_def delta_update_def Let_def split_beta
        split: option.splits)

lemma filling_contents [simp]:
  "filling k (s\<lparr>primitive_block_contents := c\<rparr>) = filling k s"
  by (auto simp: filling_def group_at_def split: option.splits)

lemma check_no_flush:
  "unat (primitive_block_contents s) < 8000 \<Longrightarrow> \<not> fill_threshold < primitive_block_size s \<Longrightarrow>
     check_block_contents_counter env s
       = Inr (s\<lparr>primitive_block_contents := primitive_block_contents s + 1\<rparr>)"
  by (simp add: check_block_contents_counter_def max_block_contents_def)

lemma check_flush:
  "8000 \<le> unat (primitive_block_contents s) \<Longrightarrow>
     check_block_contents_counter env s
       = (case store_primitive_block env s of
            Inl e \<Rightarrow> Inl e
          | Inr s1 \<Rightarrow> Inr (s1\<lparr>primitive_block_contents := primitive_block_contents s1 + 1\<rparr>))"
  by (simp add: check_block_contents_counter_def max_block_contents_def)

lemma unat_contents_Suc:
  "unat (c :: 16 word) < 8000 \<Longrightarrow> unat (c + 1) = Suc (unat c)"
  by (simp add: unat_word_ariths)

lemma map_tags_ok:
  "list_all (\<lambda>k. msi k \<noteq> None) ks \<Longrightarrow> list_all (\<lambda>v. msi v \<noteq> None) vs \<Longrightarrow>
     \<exists>r. map_tags msi ks vs = Inr r"
proof (induction msi ks vs rule: map_tags.induct)
  case (1 msi k ks v vs)
  from "1.prems" obtain k' v' where k: "msi k = Some k'" and v: "msi v = Some v'"
    by auto
  from "1.prems" have "list_all (\<lambda>k. msi k \<noteq> None) ks" "list_all (\<lambda>v. msi v \<noteq> None) vs"
    by simp_all
  from "1.IH" [OF _ _ this, of k' v'] k v obtain r where "map_tags msi ks vs = Inr r"
    by (auto simp: map_sid_def)
  then show ?case
    using k v by (cases r) (simp add: map_sid_def)
qed simp_all

lemma map_common_ok:
  assumes "pbf_object_ok N obj" and "\<forall>i. sid_ok N i \<longrightarrow> msi i \<noteq> None"
  shows "\<exists>obj'. map_common_string_ids msi obj = Inr obj'"
proof -
  have ks: "list_all (\<lambda>k. msi k \<noteq> None) (p_keys obj)"
    and vs: "list_all (\<lambda>k. msi k \<noteq> None) (p_vals obj)"
    using assms by (auto simp: pbf_object_ok_def list_all_iff)
  from map_tags_ok [OF ks vs] obtain r where r: "map_tags msi (p_keys obj) (p_vals obj) = Inr r"
    by blast
  show ?thesis
  proof (cases "p_info obj")
    case None
    then show ?thesis using r by (auto simp: map_common_string_ids_def split: prod.splits)
  next
    case (Some info)
    then have "msi (i_user_sid info) \<noteq> None"
      using assms by (auto simp: pbf_object_ok_def)
    then show ?thesis
      using Some r by (auto simp: map_common_string_ids_def map_sid_def split: prod.splits)
  qed
qed

lemma map_objects_ok:
  assumes "list_all (pbf_object_ok N) xs" and "\<forall>i. sid_ok N i \<longrightarrow> msi i \<noteq> None"
  shows "\<exists>xs'. map_objects msi xs = Inr xs' \<and> length xs' = length xs"
  using assms(1)
proof (induction xs)
  case Nil
  then show ?case by simp
next
  case (Cons x xs)
  from Cons.prems have x: "pbf_object_ok N x" and xs: "list_all (pbf_object_ok N) xs"
    by simp_all
  from map_common_ok [OF x assms(2)] obtain x' where "map_common_string_ids msi x = Inr x'"
    by blast
  moreover from Cons.IH [OF xs] obtain xs' where "map_objects msi xs = Inr xs'"
    and "length xs' = length xs" by blast
  ultimately show ?case by simp
qed

lemma map_nodes_group_ok:
  assumes "nodes_group_ok N g" and "\<forall>i. sid_ok N i \<longrightarrow> msi i \<noteq> None"
  shows "\<exists>g' d'. map_nodes_group msi d g = Inr (g', d')
           \<and> node_count_group g' = node_count_group g"
proof -
  from assms(1) have ns: "list_all (pbf_object_ok N) (g_nodes g)"
    by (simp add: nodes_group_ok_def)
  from map_objects_ok [OF ns assms(2)] obtain ns' where
    ns': "map_objects msi (g_nodes g) = Inr ns'" "length ns' = length (g_nodes g)"
    by blast
  show ?thesis
  proof (cases "g_dense g")
    case None
    then show ?thesis
      using ns' by (simp add: map_nodes_group_def node_count_group_def)
  next
    case (Some dense)
    then have dk: "dense_ok N dense"
      using assms(1) by (simp add: nodes_group_ok_def)
    have kv: "\<forall>kv \<in> set (d_keys_vals dense). kv mod 65536 = 0 \<or> msi (kv mod 65536) \<noteq> None"
    proof
      fix kv assume "kv \<in> set (d_keys_vals dense)"
      then have "kv \<le> N" using dk by (auto simp: dense_ok_def list_all_iff)
      moreover have "kv mod 65536 \<le> kv" by simp
      ultimately have "kv mod 65536 = 0 \<or> sid_ok N (kv mod 65536)"
        by (auto simp: sid_ok_def)
      then show "kv mod 65536 = 0 \<or> msi (kv mod 65536) \<noteq> None"
        using assms(2) by blast
    qed
    have us: "\<And>di. d_denseinfo dense = Some di \<Longrightarrow> \<forall>u \<in> set (di_user_sid di). msi (nat u) \<noteq> None"
    proof
      fix di u assume "d_denseinfo dense = Some di" and "u \<in> set (di_user_sid di)"
      then have "sid_ok N (nat u)"
        using dk by (auto simp: dense_ok_def list_all_iff sid_ok_def)
      then show "msi (nat u) \<noteq> None" using assms(2) by blast
    qed
    show ?thesis
    proof (cases "d_denseinfo dense")
      case None
      then show ?thesis
        using Some ns' kv
        by (simp add: map_nodes_group_def map_dense_def map_keys_vals_eq node_count_group_def)
    next
      case (Some di)
      then show ?thesis
        using \<open>g_dense g = Some dense\<close> ns' kv us [OF Some]
        by (simp add: map_nodes_group_def map_dense_def map_keys_vals_eq map_dense_user_sid_eq
              node_count_group_def)
    qed
  qed
qed

subsection \<open>Flushing a block of nodes\<close>

lemma fill_threshold_value: "fill_threshold = 31876710"
  by (simp add: fill_threshold_def max_uncompressed_blob_size_def buffer_fill_percent_def)

lemma flush_due_alt:
  "flush_due s = (max_block_contents \<le> unat (primitive_block_contents s)
                  \<or> fill_threshold < primitive_block_size s)"
  by (simp add: flush_due_def max_block_contents_def fill_threshold_value word_less_nat_alt)

lemma blob_of_total:
  "(compress \<longrightarrow> (\<forall>d. deflate env d \<noteq> None)) \<Longrightarrow> \<exists>blob. blob_of env compress msg = Some blob"
proof (cases compress)
  case True
  assume "compress \<longrightarrow> (\<forall>d. deflate env d \<noteq> None)"
  with True have "deflate env (serialize_msg env msg) \<noteq> None" by blast
  then obtain z where "deflate env (serialize_msg env msg) = Some z" by auto
  then show ?thesis using True by (simp add: blob_of_def Let_def)
next
  case False
  then show ?thesis by (simp add: blob_of_def Let_def)
qed

lemma finish_filling:
  assumes "filling k s"
  shows "\<exists>s'. finish_primitive_block s = Inr s'
           \<and> block_node_count (pbf_primitive_block s') = k
           \<and> m_file s' = m_file s \<and> cfg s' = cfg s"
proof -
  obtain strs st where st: "store_stringtable (string_table s) = (strs, st)"
    by (cases "store_stringtable (string_table s)")
  let ?N = "length (m_strings (string_table s))"
  from assms have sto: "st_ok (string_table s)"
    and w: "pbf_ways s = None" and r: "pbf_relations s = None"
    by (simp_all add: filling_def)
  have msi: "\<forall>i. sid_ok ?N i \<longrightarrow> map_string_id st i \<noteq> None"
    using map_string_id_defined [OF sto] st by simp
  define s1 where "s1 = s\<lparr>pbf_primitive_block := (pbf_primitive_block s)
                 \<lparr>b_granularity := m_location_granularity s,
                  b_date_granularity := m_date_granularity s,
                  b_stringtable := strs\<rparr>,
                string_table := st\<rparr>"
  have fin: "finish_primitive_block s = map_string_ids (map_string_id st) s1"
    using st by (simp add: finish_primitive_block_def s1_def)
  have s1f: "pbf_ways s1 = None" "pbf_relations s1 = None" "pbf_nodes s1 = pbf_nodes s"
    "m_file s1 = m_file s" "cfg s1 = cfg s"
    "b_primitivegroup (pbf_primitive_block s1) = b_primitivegroup (pbf_primitive_block s)"
    using w r by (simp_all add: s1_def cfg_def)
  show ?thesis
  proof (cases "pbf_nodes s")
    case None
    then have "b_primitivegroup (pbf_primitive_block s) = []" and "k = 0"
      using assms by (simp_all add: filling_def)
    then show ?thesis
      using None s1f
      by (simp add: fin map_string_ids_def map_nodes_part_def map_ways_part_def
            map_relations_part_def block_node_count_def)
  next
    case (Some gi)
    then have gi: "gi = 0"
      and len: "length (b_primitivegroup (pbf_primitive_block s)) = 1"
      and cnt: "node_count_group (group_at s 0) = k"
      and ok: "nodes_group_ok ?N (group_at s 0)"
      using assms by (simp_all add: filling_def)
    have ga: "group_at s1 0 = group_at s 0"
      by (simp add: group_at_def s1f)
    from map_nodes_group_ok [OF ok msi, of "m_delta_user_sid s1"] obtain g' d' where
      g': "map_nodes_group (map_string_id st) (m_delta_user_sid s1) (group_at s 0) = Inr (g', d')"
      and c': "node_count_group g' = node_count_group (group_at s 0)"
      by blast
    let ?s2 = "(set_group 0 g' s1)\<lparr>m_delta_user_sid := d'\<rparr>"
    have n: "map_nodes_part (map_string_id st) s1 = Inr ?s2"
      using Some gi g' ga s1f by (simp add: map_nodes_part_def)
    have f2: "finish_primitive_block s = Inr ?s2"
      using n s1f by (simp add: fin map_string_ids_def map_ways_part_def map_relations_part_def)
    obtain g0 where g0: "b_primitivegroup (pbf_primitive_block s) = [g0]"
      using len by (cases "b_primitivegroup (pbf_primitive_block s)") auto
    have "block_node_count (pbf_primitive_block ?s2) = k"
      using g0 c' cnt s1f by (simp add: block_node_count_def set_group_def)
    then show ?thesis
      using f2 s1f by (simp add: set_group_def cfg_def)
  qed
qed


lemma store_filling:
  assumes "filling k s" and "io_ok env s"
  shows "\<exists>s' blk blob. store_primitive_block env s = Inr s'
           \<and> blob_of env (m_use_compression s) (PrimitiveMsg blk) = Some blob
           \<and> block_node_count blk = k
           \<and> m_file s' = file_append (frame_bytes env ''OSMData'' blob) (m_file s)
           \<and> filling 0 s' \<and> primitive_block_contents s' = 0 \<and> primitive_block_size s' = 0
           \<and> cfg s' = cfg s \<and> io_ok env s'"
proof -
  from finish_filling [OF assms(1)] obtain s2 where
    f: "finish_primitive_block s = Inr s2"
    and c: "block_node_count (pbf_primitive_block s2) = k"
    and mf: "m_file s2 = m_file s" and cf: "cfg s2 = cfg s"
    by blast
  have comp: "m_use_compression s2 = m_use_compression s"
    using cf by (simp add: cfg_def)
  have sc: "fd_script (f_fd (m_file s2)) = []"
    using assms(2) mf by (simp add: io_ok_def)
  from blob_of_total [of "m_use_compression s" env "PrimitiveMsg (pbf_primitive_block s2)"]
  obtain blob where
    b: "blob_of env (m_use_compression s) (PrimitiveMsg (pbf_primitive_block s2)) = Some blob"
    using assms(2) by (auto simp: io_ok_def)
  have sb: "store_blob env ''OSMData'' (PrimitiveMsg (pbf_primitive_block s2)) s2
            = Inr (s2\<lparr>m_file := file_append (frame_bytes env ''OSMData'' blob) (m_file s2)\<rparr>)"
    by (rule store_blob_ok [OF sc]) (simp add: comp b)
  let ?s' = "s2\<lparr>m_file := file_append (frame_bytes env ''OSMData'' blob) (m_file s2),
                pbf_primitive_block := empty_primitive_block,
                       string_table := string_table_empty,
                       m_delta_id := delta_clear,
                       m_delta_lat := delta_clear,
                       m_delta_lon := delta_clear,
                       m_delta_timestamp := delta_clear,
                       m_delta_changeset := delta_clear,
                       m_delta_uid := delta_clear,
                       m_delta_user_sid := delta_clear,
                       primitive_block_contents := 0,
                       primitive_block_size := 0,
                       pbf_nodes := None,
                       pbf_ways := None,
                       pbf_relations := None\<rparr>"
  have st: "store_primitive_block env s = Inr ?s'"
    by (simp add: store_primitive_block_def f sb)
  have fl: "filling 0 ?s'"
    by (simp add: filling_def st_ok_empty empty_primitive_block_def)
  have cf': "cfg ?s' = cfg s"
    using cf by (simp add: cfg_def)
  have io: "io_ok env ?s'"
    using assms(2) mf cf by (simp add: io_ok_def cfg_def file_append_def)
  show ?thesis
    using st b c fl cf' io mf by auto
qed

lemma cfg_contents [simp]: "cfg (s\<lparr>primitive_block_contents := c\<rparr>) = cfg s"
  by (simp add: cfg_def)

lemma nodes_run_append:
  "nodes_run env (xs @ ys) s =
     (case nodes_run env xs s of Inl e \<Rightarrow> Inl e | Inr s1 \<Rightarrow> nodes_run env ys s1)"
  by (induction xs arbitrary: s) (auto split: sum.splits)

lemma run_filling:
  assumes "filling k s" and "unat (primitive_block_contents s) = k"
    and "\<not> fill_threshold < primitive_block_size s"
    and "k + length ns \<le> 8000" and "list_all strings_ok ns"
  shows "\<exists>s'. nodes_run env ns s = Inr s' \<and> filling (k + length ns) s'
           \<and> unat (primitive_block_contents s') = k + length ns
           \<and> primitive_block_size s' = primitive_block_size s
           \<and> m_file s' = m_file s \<and> cfg s' = cfg s"
  using assms
proof (induction ns arbitrary: k s)
  case Nil
  then show ?case by simp
next
  case (Cons n ns)
  from Cons.prems have k: "unat (primitive_block_contents s) < 8000" by simp
  let ?s1 = "s\<lparr>primitive_block_contents := primitive_block_contents s + 1\<rparr>"
  let ?s2 = "put_node n (alloc_nodes ?s1)"
  have nd: "node env n s = Inr ?s2"
    using check_no_flush [OF k Cons.prems(3)] by (simp add: node_alt)
  have so: "strings_ok n" and rest: "list_all strings_ok ns"
    using Cons.prems(5) by simp_all
  have f2: "filling (Suc k) ?s2"
    using Cons.prems(1) so by (simp add: filling_put_node)
  have c2: "unat (primitive_block_contents ?s2) = Suc k"
    using k Cons.prems(2) by (simp add: put_node_frame unat_contents_Suc)
  have z2: "\<not> fill_threshold < primitive_block_size ?s2"
    using Cons.prems(3) by (simp add: put_node_frame)
  have l2: "Suc k + length ns \<le> 8000"
    using Cons.prems(4) by simp
  from Cons.IH [OF f2 c2 z2 l2 rest] obtain s' where
    "nodes_run env ns ?s2 = Inr s'" "filling (Suc k + length ns) s'"
    "unat (primitive_block_contents s') = Suc k + length ns"
    "primitive_block_size s' = primitive_block_size ?s2"
    "m_file s' = m_file ?s2" "cfg s' = cfg ?s2"
    by blast
  then show ?case
    using nd by (simp add: put_node_frame)
qed

lemma contents_pos: "unat (c :: 16 word) = Suc k \<Longrightarrow> 0 < c"
  by (metis unat_gt_0 word_neq_0_conv zero_less_Suc)

subsection \<open>Delta-encoded columns\<close>
















lemma contents_frame [simp]:
  "group_at (s\<lparr>primitive_block_contents := c\<rparr>) gi = group_at s gi"
  "lonlat2int (s\<lparr>primitive_block_contents := c\<rparr>) = lonlat2int s"
  "timestamp2int (s\<lparr>primitive_block_contents := c\<rparr>) = timestamp2int s"
  by (simp_all add: group_at_def lonlat2int_def timestamp2int_def fun_eq_iff)

lemma dense_of_contents [simp]:
  "dense_of (s\<lparr>primitive_block_contents := c\<rparr>) = dense_of s"
  by (cases "pbf_nodes s") (simp_all add: dense_of_def)

lemma denseinfo_of_contents [simp]:
  "denseinfo_of (s\<lparr>primitive_block_contents := c\<rparr>) = denseinfo_of s"
  by (simp add: denseinfo_of_def)

lemma tracks_contents [simp]: "tracks ns (s\<lparr>primitive_block_contents := c\<rparr>) = tracks ns s"
  by (simp add: tracks_def)

lemma ptrs_ok_contents [simp]: "ptrs_ok (s\<lparr>primitive_block_contents := c\<rparr>) = ptrs_ok s"
  by (auto simp: ptrs_ok_def split: option.splits)





















lemma cfg_contents_upd [simp]: "cfg (s\<lparr>primitive_block_contents := c\<rparr>) = cfg s"
  by (simp add: cfg_def)


lemma one_block_nodes:
  assumes "unat (primitive_block_contents s) + length ns \<le> 8000" and "\<not> flush_due s"
  shows "one_block env (map ENode ns) s"
  using assms
proof (induction ns arbitrary: s)
  case Nil
  then show ?case by simp
next
  case (Cons n ns)
  from Cons.prems have k: "unat (primitive_block_contents s) < 8000" by simp
  let ?s1 = "s\<lparr>primitive_block_contents := primitive_block_contents s + 1\<rparr>"
  let ?s2 = "put_node n (alloc_nodes ?s1)"
  have z: "\<not> fill_threshold < primitive_block_size s"
    using Cons.prems(2) by (simp add: flush_due_alt)
  have nd: "node env n s = Inr ?s2"
    using check_no_flush [OF k z] by (simp add: node_alt)
  have c2: "unat (primitive_block_contents ?s2) + length ns \<le> 8000"
    using k Cons.prems(1) by (simp add: put_node_frame unat_contents_Suc)
  show ?case
  proof (cases ns)
    case Nil
    then show ?thesis
      using Cons.prems(2) nd by simp
  next
    case (Cons m ms)
    have f2: "\<not> flush_due ?s2"
      using c2 Cons.prems(2) k Cons
      by (simp add: flush_due_def put_node_frame unat_contents_Suc)
    show ?thesis
      using Cons.IH [OF c2 f2] Cons.prems(2) nd by simp
  qed
qed
subsection \<open>Blocks on both sides of a flush\<close>








subsection \<open>The rewrite with a map that answers every input\<close>

















section \<open>The claims\<close>

text \<open>
  C7. \<open>write_relation\<close> maps the kind tags \<open>n\<close>, \<open>w\<close> and \<open>r\<close> of the members to the enum
  values NODE, WAY and RELATION, in member order; it fails exactly when some member has
  another kind tag, and then with \<open>InvalidMemberType\<close>. The public operation \<open>relation\<close>
  fails in the same way once its flush check has passed.
\<close>

theorem relation_member_types:
  assumes "pbf_relations s = Some gi"
    and "gi < length (b_primitivegroup (pbf_primitive_block s))"
  shows "(case write_relation env rel s of
            Inl e \<Rightarrow> e = InvalidMemberType
                     \<and> (\<exists>m \<in> set (r_members rel). member_kind (m_type m) = None)
          | Inr s' \<Rightarrow> (\<forall>m \<in> set (r_members rel). member_kind (m_type m) \<noteq> None)
                     \<and> pr_types (last (g_relations (group_at s' gi)))
                         = map (\<lambda>m. the (member_kind (m_type m))) (r_members rel))
         \<and> (\<forall>s1. check_block_contents_counter env t = Inr s1
                \<and> (\<exists>m \<in> set (r_members rel). member_kind (m_type m) = None)
              \<longrightarrow> relation env rel t = Inl InvalidMemberType)"
proof -
  obtain out st where aci: "apply_common_info s rel empty_relation = (out, st)"
    by (cases "apply_common_info s rel empty_relation")
  have ty: "pr_types out = []"
    using aci
    by (auto simp: apply_common_info_def empty_relation_def Let_def split: prod.splits if_splits)
  have A: "(case write_relation env rel s of
            Inl e \<Rightarrow> e = InvalidMemberType
                     \<and> (\<exists>m \<in> set (r_members rel). member_kind (m_type m) = None)
          | Inr s' \<Rightarrow> (\<forall>m \<in> set (r_members rel). member_kind (m_type m) \<noteq> None)
                     \<and> pr_types (last (g_relations (group_at s' gi)))
                         = map (\<lambda>m. the (member_kind (m_type m))) (r_members rel))"
  proof (cases "write_members (r_members rel) (Delta 0) st out")
    case (Inl e)
    then show ?thesis
      using assms aci write_members_Inl [OF Inl]
      by (simp add: write_relation_def)
  next
    case (Inr p)
    obtain r' st' where p: "p = (r', st')" by (cases p)
    show ?thesis
      using assms aci Inr p write_members_Inr [of "r_members rel" "Delta 0" st out r' st'] ty
      by (simp add: write_relation_def Let_def group_at_set_group)
  qed
  have B: "\<forall>s1. check_block_contents_counter env t = Inr s1
                \<and> (\<exists>m \<in> set (r_members rel). member_kind (m_type m) = None)
              \<longrightarrow> relation env rel t = Inl InvalidMemberType"
  proof (intro allI impI, elim conjE)
    fix s1
    assume c: "check_block_contents_counter env t = Inr s1"
      and u: "\<exists>m \<in> set (r_members rel). member_kind (m_type m) = None"
    define s2 where "s2 = (case pbf_relations s1 of
                       None \<Rightarrow>
                         (let (gi, s') = add_primitivegroup s1 in s'\<lparr>pbf_relations := Some gi\<rparr>)
                     | Some gi \<Rightarrow> s1)"
    obtain gj where gj: "pbf_relations s2 = Some gj"
      by (cases "pbf_relations s1") (auto simp: s2_def add_primitivegroup_def)
    obtain out2 st2 where aci2: "apply_common_info s2 rel empty_relation = (out2, st2)"
      by (cases "apply_common_info s2 rel empty_relation")
    have "write_relation env rel s2 = Inl InvalidMemberType"
    proof (cases "write_members (r_members rel) (Delta 0) st2 out2")
      case (Inl e)
      then show ?thesis using gj aci2 write_members_Inl [OF Inl]
        by (simp add: write_relation_def)
    next
      case (Inr p)
      obtain r' st' where p: "p = (r', st')" by (cases p)
      show ?thesis using write_members_Inr [of "r_members rel" "Delta 0" st2 out2 r' st'] Inr p u
        by auto
    qed
    then show "relation env rel t = Inl InvalidMemberType"
      using c by (simp add: relation_def s2_def)
  qed
  show ?thesis using A B by blast
qed

theorem relation_member_types_witness:
  "(case write_relation env0 rel99 pbf_rel of
      Inl e \<Rightarrow> False
    | Inr s' \<Rightarrow> pr_types (last (g_relations (group_at s' 0))) = [WAY, NODE, RELATION])
   \<and> relation env0 rel_bad pbf0 = Inl InvalidMemberType"
proof -
  have h1: "pbf_relations pbf_rel = Some 0"
    by (simp add: pbf_rel_def)
  have h2: "0 < length (b_primitivegroup (pbf_primitive_block pbf_rel))"
    by (simp add: pbf_rel_def)
  have k: "\<not> (\<exists>m \<in> set (r_members rel99). member_kind (m_type m) = None)"
    by (simp add: rel99_def member_kind_def)
  have t: "map (\<lambda>m. the (member_kind (m_type m))) (r_members rel99) = [WAY, NODE, RELATION]"
    by (simp add: rel99_def member_kind_def)
  have b: "\<exists>m \<in> set (r_members rel_bad). member_kind (m_type m) = None"
    by (simp add: rel_bad_def member_kind_def)
  have c: "check_block_contents_counter env0 pbf0 = Inr (pbf0\<lparr>primitive_block_contents := 1\<rparr>)"
    by (simp add: check_block_contents_counter_def pbf0_def PBF_new_def max_block_contents_def
      fill_threshold_def)
  note th1 = relation_member_types [OF h1 h2, where env = env0 and rel = rel99 and t = pbf0]
  note th2 = relation_member_types [OF h1 h2, where env = env0 and rel = rel_bad and t = pbf0]
  show ?thesis
    using th1 th2 k t b c by (auto split: sum.splits)
qed

text \<open>
  C9. \<open>init\<close> on the writer as constructed (an empty header block) and a descriptor that
  accepts every write emits exactly one frame of blob-header type OSMHeader, whose
  header block holds the required features "OsmSchema-V0.6", then "DenseNodes" if and
  only if \<open>use_dense_format\<close> is set, then "HistoricalInformation" if and only if the
  file carries multiple object versions. A \<open>final\<close> right after it (no entity counted)
  writes nothing more and closes the file. For the writer as the constructor leaves
  it on a file without multiple object versions the features are
  ["OsmSchema-V0.6", "DenseNodes"].
\<close>

theorem init_header_block:
  assumes "pbf_header_block s = empty_header_block"
    and "fd_script (f_fd (m_file s)) = []"
    and "blob_of env (m_use_compression s)
           (HeaderMsg \<lparr>h_required_features =
                          required_features_of (m_use_dense_format s)
                            (has_multiple_object_versions (m_file s)),
                       h_writingprogram = m_generator s,
                       h_bbox = bbox_of meta\<rparr>) = Some blob"
  shows "init env meta s
           = Inr (s\<lparr>m_file := file_append (frame_bytes env ''OSMHeader'' blob) (m_file s)\<rparr>)
         \<and> (primitive_block_contents s = 0 \<longrightarrow>
              final env (s\<lparr>m_file := file_append (frame_bytes env ''OSMHeader'' blob) (m_file s)\<rparr>)
                = Inr (s\<lparr>m_file := (file_append (frame_bytes env ''OSMHeader'' blob) (m_file s))
                                     \<lparr>f_closed := True\<rparr>\<rparr>))
         \<and> required_features_of (m_use_dense_format s) (has_multiple_object_versions (m_file s))
             = ''OsmSchema-V0.6''
               # (if m_use_dense_format s then [''DenseNodes''] else [])
               @ (if has_multiple_object_versions (m_file s) then [''HistoricalInformation''] else [])
         \<and> (\<forall>file gen. s = PBF_new file gen \<and> \<not> has_multiple_object_versions file \<longrightarrow>
               required_features_of (m_use_dense_format s) (has_multiple_object_versions (m_file s))
                 = [''OsmSchema-V0.6'', ''DenseNodes''])"
proof -
  let ?hdr = "\<lparr>h_required_features =
                          required_features_of (m_use_dense_format s)
                            (has_multiple_object_versions (m_file s)),
                       h_writingprogram = m_generator s,
                       h_bbox = bbox_of meta\<rparr>"
  let ?s1 = "s\<lparr>pbf_header_block := ?hdr\<rparr>"
  have i: "init env meta s = store_header_block env ?s1"
    using assms(1)
    by (simp add: init_def Let_def empty_header_block_def required_features_of_def
          has_multiple_object_versions_def bbox_of_def lonlat_resolution_def
          split: option.splits prod.splits)
  have sb: "store_blob env ''OSMHeader'' (HeaderMsg ?hdr) ?s1
            = Inr (?s1\<lparr>m_file := file_append (frame_bytes env ''OSMHeader'' blob) (m_file ?s1)\<rparr>)"
    by (rule store_blob_ok) (use assms in simp_all)
  have A: "init env meta s
           = Inr (s\<lparr>m_file := file_append (frame_bytes env ''OSMHeader'' blob) (m_file s)\<rparr>)"
    using assms(1) by (simp add: i store_header_block_def sb)
  have B: "primitive_block_contents s = 0 \<longrightarrow>
              final env (s\<lparr>m_file := file_append (frame_bytes env ''OSMHeader'' blob) (m_file s)\<rparr>)
                = Inr (s\<lparr>m_file := (file_append (frame_bytes env ''OSMHeader'' blob) (m_file s))
                                     \<lparr>f_closed := True\<rparr>\<rparr>)"
    by (simp add: final_def)
  have C: "required_features_of (m_use_dense_format s) (has_multiple_object_versions (m_file s))
             = ''OsmSchema-V0.6''
               # (if m_use_dense_format s then [''DenseNodes''] else [])
               @ (if has_multiple_object_versions (m_file s) then [''HistoricalInformation''] else [])"
    by (simp add: required_features_of_def)
  have D: "\<forall>file gen. s = PBF_new file gen \<and> \<not> has_multiple_object_versions file \<longrightarrow>
               required_features_of (m_use_dense_format s) (has_multiple_object_versions (m_file s))
                 = [''OsmSchema-V0.6'', ''DenseNodes'']"
    by (simp add: required_features_of_def PBF_new_def)
  show ?thesis using A B C D by blast
qed

theorem init_header_block_witness:
  "init env0 meta0 pbf0
     = Inr (pbf0\<lparr>m_file := file_append [0, 0, 0, 1, 6, 4, 5] file0\<rparr>)
   \<and> final env0 (pbf0\<lparr>m_file := file_append [0, 0, 0, 1, 6, 4, 5] file0\<rparr>)
     = Inr (pbf0\<lparr>m_file := (file_append [0, 0, 0, 1, 6, 4, 5] file0)\<lparr>f_closed := True\<rparr>\<rparr>)
   \<and> required_features_of (m_use_dense_format pbf0) (has_multiple_object_versions (m_file pbf0))
     = [''OsmSchema-V0.6'', ''DenseNodes'']"
proof -
  let ?blob = "\<lparr>blob_raw = None, blob_zlib_data = Some [1, 2, 3], blob_raw_size = Some 3\<rparr>"
  have h1: "pbf_header_block pbf0 = empty_header_block"
    by (simp add: pbf0_def PBF_new_def)
  have h2: "fd_script (f_fd (m_file pbf0)) = []"
    by (simp add: pbf0_def PBF_new_def file0_def)
  have h3: "blob_of env0 (m_use_compression pbf0)
           (HeaderMsg \<lparr>h_required_features =
                          required_features_of (m_use_dense_format pbf0)
                            (has_multiple_object_versions (m_file pbf0)),
                       h_writingprogram = m_generator pbf0,
                       h_bbox = bbox_of meta0\<rparr>) = Some ?blob"
    by (simp add: blob_of_def env0_def pbf0_def PBF_new_def)
  have f: "frame_bytes env0 ''OSMHeader'' ?blob = [0, 0, 0, 1, 6, 4, 5]"
    by (simp add: frame_bytes_def env0_def be32_def)
  have c: "primitive_block_contents pbf0 = 0"
    by (simp add: pbf0_def PBF_new_def)
  have m: "m_file pbf0 = file0"
    by (simp add: pbf0_def PBF_new_def)
  have n: "\<not> has_multiple_object_versions file0"
    by (simp add: has_multiple_object_versions_def file0_def)
  have d: "m_use_dense_format pbf0"
    by (simp add: pbf0_def PBF_new_def)
  show ?thesis
    using init_header_block [OF h1 h2 h3] f c m n d
    by simp
qed

text \<open>
  C8. The frame writer issues each of its three writes once and throws only when a
  write answers a negative value. On a descriptor that accepts two bytes of the first
  write, \<open>store_blob\<close> returns normally although only two of the four length bytes
  were written: the complete frame is 0 0 0 1 6 4 5, the file holds 0 0 6 4 5.
\<close>

theorem short_write_unnoticed:
  "(case store_blob env0 ''OSMData'' (PrimitiveMsg empty_primitive_block) pbf_short of
      Inl e \<Rightarrow> False
    | Inr s' \<Rightarrow> fd_written (f_fd (m_file s')) = [0, 0, 6, 4, 5])
   \<and> frame_bytes env0 ''OSMData''
        \<lparr>blob_raw = None, blob_zlib_data = Some [1, 2, 3], blob_raw_size = Some 3\<rparr>
      = [0, 0, 0, 1, 6, 4, 5]"
  by (simp add: store_blob_def pbf_short_def pbf0_def PBF_new_def file0_def env0_def
        zlib_compress_def fd_write_def htonl_bytes_def frame_bytes_def be32_def Let_def
        empty_blob_def)

text \<open>
  C5 (amended). In the single-sparse-node scenario the flushed block's string table is
  ["", "alice", "amenity", "cafe"]: the three strings are used once each and the tie
  is broken by ascending string comparison. The node is emitted with keys = [2],
  vals = [3], info.user_sid = 1, lon = 135000000 and lat = 525000000. Every table that
  \<open>store_stringtable\<close> emits is sorted by descending usage count, ties by ascending
  string.
\<close>

theorem sparse_node_block:
  "(case node env node42 pbf_sparse of
      Inl e \<Rightarrow> None
    | Inr s \<Rightarrow> (case finish_primitive_block s of
                   Inl e \<Rightarrow> None
                 | Inr s' \<Rightarrow> Some (pbf_primitive_block s')))
   = Some \<lparr>b_stringtable = ['''', ''alice'', ''amenity'', ''cafe''],
           b_primitivegroup =
             [\<lparr>g_nodes =
                 [\<lparr>p_id = 42, p_keys = [2], p_vals = [3],
                   p_info = Some \<lparr>i_version = 1, i_timestamp = 1000000000, i_changeset = 7,
                                   i_uid = 3, i_user_sid = 1, i_visible = None\<rparr>,
                   pn_lat = 525000000, pn_lon = 135000000\<rparr>],
               g_dense = None, g_ways = [], g_relations = []\<rparr>],
           b_granularity = 100, b_date_granularity = 1000\<rparr>
   \<and> sorted (map (\<lambda>(s, iid, c). (- int c, s)) (sort_strings es))"
  by (simp add: run_defs pbf_sparse_def node42_def sorted_sort_key [unfolded comp_def])

text \<open>The string table of that block is not ["", "amenity", "cafe", "alice"].\<close>

theorem sparse_node_table_counterexample:
  "(case node env0 node42 pbf_sparse of
      Inl e \<Rightarrow> None
    | Inr s \<Rightarrow> (case finish_primitive_block s of
                   Inl e \<Rightarrow> None
                 | Inr s' \<Rightarrow> Some (b_stringtable (pbf_primitive_block s'))))
   \<noteq> Some ['''', ''amenity'', ''cafe'', ''alice'']"
  by (simp add: run_defs pbf_sparse_def node42_def)

text \<open>
  C3. One dense node with the tag ("name", "") is flushed with the \<open>keys_vals\<close> stream
  2 0 0: two entries are 0 for one node, the first of them the reference to the empty
  value.
\<close>

theorem dense_empty_value_zeros:
  "(case node env0 node_empty_value pbf0 of
      Inl e \<Rightarrow> False
    | Inr s \<Rightarrow> (case finish_primitive_block s of
                   Inl e \<Rightarrow> False
                 | Inr s' \<Rightarrow> (case g_dense (group_at s' 0) of
                                None \<Rightarrow> False
                              | Some d \<Rightarrow> length (d_id d) = 1 \<and> d_keys_vals d = [2, 0, 0]
                                          \<and> count_list (d_keys_vals d) 0 = 2)))"
  by (simp add: run_defs node_empty_value_def)



text \<open>
  C10 (amended). In the flush-time rewrite every \<open>keys_vals\<close> entry is narrowed to 16 bits
  before the zero test and the remap: an entry \<open>i\<close> with \<open>i mod 2^16 \<noteq> 0\<close> becomes the
  final id of \<open>i mod 2^16\<close>, and an entry that is a multiple of \<open>2^16\<close> stays as it is,
  unmapped. A \<open>DenseInfo.user_sid\<close> entry is not narrowed before the remap and passes
  no zero test: it is remapped at its full width, and the final id is narrowed to 16
  bits before it enters the delta tracker.
\<close>

theorem dense_narrowing:
  "map_keys_vals msi kvs =
     (if \<forall>kv \<in> set kvs. kv mod 65536 = 0 \<or> msi (kv mod 65536) \<noteq> None
      then Inr (map (keys_vals_entry msi) kvs)
      else Inl InvalidStringId)
   \<and> (\<forall>i. i mod 65536 \<noteq> 0 \<longrightarrow> keys_vals_entry msi i = the (msi (i mod 65536)))
   \<and> (\<forall>k. keys_vals_entry msi (k * 65536) = k * 65536)
   \<and> map_dense_user_sid msi d us =
       (if \<forall>u \<in> set us. msi (nat u) \<noteq> None
        then Inr (map sint (delta_list (prev d)
                    (map (\<lambda>u. word_of_nat (the (msi (nat u)) mod 65536)) us)),
                  Delta (last (prev d # map (\<lambda>u. word_of_nat (the (msi (nat u)) mod 65536)) us)))
        else Inl InvalidStringId)"
proof -
  have "final_sid16 msi = (\<lambda>u. word_of_nat (the (msi (nat u)) mod 65536))"
    by (rule ext) (simp add: final_sid16_def)
  then show ?thesis
    using map_keys_vals_eq [of msi kvs] map_dense_user_sid_eq [of msi d us]
    by (simp add: keys_vals_entry_def)
qed

theorem dense_narrowing_witness:
  "map_keys_vals msi_big [65537, 131072, 0, 3] = Inr [2, 131072, 0, 4]
   \<and> map_dense_user_sid msi_big (Delta 0) [65537, 1] = Inr ([1, 1], Delta 2)"
  using dense_narrowing [of msi_big "[65537, 131072, 0, 3]" "Delta 0" "[65537, 1]"]
  by (simp add: msi_big_def keys_vals_entry_def)

text \<open>
  C10 as claimed fails for \<open>user_sid\<close>: with 65537 strings, the entry 65537 is not
  processed as \<open>65537 mod 2^16 = 1\<close>.
\<close>

theorem dense_narrowing_counterexample:
  "map_dense_user_sid msi_big (Delta 0) [65537]
     \<noteq> map_dense_user_sid msi_big (Delta 0) [65537 mod 65536]"
  by (simp add: msi_big_def map_sid_def delta_update_def)

text \<open>
  C1. The flush check stores the block in flight exactly when its entity counter has
  reached 8000 or, the counter being below that, its estimated size exceeds
  31876710 = 33554432 * 95 / 100; \<open>node\<close>, \<open>way\<close> and \<open>relation\<close> run the check first and
  encode the new entity into whatever block the check leaves. Ingesting 8001 nodes
  (with non-empty strings, on a descriptor and a zlib that do not fail) into a writer
  at the start of a block, followed by \<open>final\<close>, appends exactly two data frames to the
  file: the first carries a block of 8000 nodes, the second a block of one node.
\<close>

theorem flush_check:
  assumes "filling 0 s" and "primitive_block_contents s = 0" and "primitive_block_size s = 0"
    and "io_ok env s" and "length ns = 8000" and "list_all strings_ok (ns @ [n])"
  shows "(\<forall>t. check_block_contents_counter env t =
            (if flush_due t
             then (case store_primitive_block env t of
                     Inl e \<Rightarrow> Inl e
                   | Inr t1 \<Rightarrow> Inr (t1\<lparr>primitive_block_contents := primitive_block_contents t1 + 1\<rparr>))
             else Inr (t\<lparr>primitive_block_contents := primitive_block_contents t + 1\<rparr>)))
         \<and> (\<forall>t m w r.
               node env m t = (case check_block_contents_counter env t of
                                 Inl e \<Rightarrow> Inl e
                               | Inr t1 \<Rightarrow> Inr (put_node m (alloc_nodes t1)))
             \<and> way env w t = (case check_block_contents_counter env t of
                                 Inl e \<Rightarrow> Inl e
                               | Inr t1 \<Rightarrow> Inr (write_way env w (alloc_ways t1)))
             \<and> relation env r t = (case check_block_contents_counter env t of
                                      Inl e \<Rightarrow> Inl e
                                    | Inr t1 \<Rightarrow> write_relation env r (alloc_relations t1)))
         \<and> (\<exists>s1 s2 blk1 blob1 blk2 blob2.
               nodes_run env (ns @ [n]) s = Inr s1 \<and> final env s1 = Inr s2
             \<and> blob_of env (m_use_compression s) (PrimitiveMsg blk1) = Some blob1
             \<and> blob_of env (m_use_compression s) (PrimitiveMsg blk2) = Some blob2
             \<and> block_node_count blk1 = 8000 \<and> block_node_count blk2 = 1
             \<and> m_file s2 = (file_append (frame_bytes env ''OSMData'' blob2)
                              (file_append (frame_bytes env ''OSMData'' blob1) (m_file s)))
                              \<lparr>f_closed := True\<rparr>)"
proof -
  have A: "\<forall>t. check_block_contents_counter env t =
            (if flush_due t
             then (case store_primitive_block env t of
                     Inl e \<Rightarrow> Inl e
                   | Inr t1 \<Rightarrow> Inr (t1\<lparr>primitive_block_contents := primitive_block_contents t1 + 1\<rparr>))
             else Inr (t\<lparr>primitive_block_contents := primitive_block_contents t + 1\<rparr>))"
    by (simp add: check_block_contents_counter_def flush_due_alt)
  have B: "\<forall>t m w r.
               node env m t = (case check_block_contents_counter env t of
                                 Inl e \<Rightarrow> Inl e
                               | Inr t1 \<Rightarrow> Inr (put_node m (alloc_nodes t1)))
             \<and> way env w t = (case check_block_contents_counter env t of
                                 Inl e \<Rightarrow> Inl e
                               | Inr t1 \<Rightarrow> Inr (write_way env w (alloc_ways t1)))
             \<and> relation env r t = (case check_block_contents_counter env t of
                                      Inl e \<Rightarrow> Inl e
                                    | Inr t1 \<Rightarrow> write_relation env r (alloc_relations t1))"
    by (auto simp: node_alt way_def relation_def alloc_ways_def alloc_relations_def Let_def
          split: sum.splits)
  have so: "list_all strings_ok ns" and son: "strings_ok n"
    using assms(6) by simp_all
  have c0: "unat (primitive_block_contents s) = 0" and z0: "\<not> fill_threshold < primitive_block_size s"
    using assms(2,3) by simp_all
  have l: "0 + length ns \<le> 8000" using assms(5) by simp
  from run_filling [OF assms(1) c0 z0 l so, of env] obtain sa where
    ra: "nodes_run env ns s = Inr sa" and fa: "filling 8000 sa"
    and ca: "unat (primitive_block_contents sa) = 8000"
    and ma: "m_file sa = m_file s" and cfa: "cfg sa = cfg s"
    using assms(5) by auto
  have ioa: "io_ok env sa"
    using assms(4) ma cfa by (simp add: io_ok_def cfg_def)
  from store_filling [OF fa ioa] obtain sb blk1 blob1 where
    stb: "store_primitive_block env sa = Inr sb"
    and b1: "blob_of env (m_use_compression sa) (PrimitiveMsg blk1) = Some blob1"
    and n1: "block_node_count blk1 = 8000"
    and mb: "m_file sb = file_append (frame_bytes env ''OSMData'' blob1) (m_file sa)"
    and fb: "filling 0 sb" and cb: "primitive_block_contents sb = 0"
    and cfb: "cfg sb = cfg sa" and iob: "io_ok env sb"
    by blast
  let ?sc = "sb\<lparr>primitive_block_contents := primitive_block_contents sb + 1\<rparr>"
  let ?s1 = "put_node n (alloc_nodes ?sc)"
  have chk: "check_block_contents_counter env sa = Inr ?sc"
    using ca stb by (simp add: check_flush)
  have nd: "node env n sa = Inr ?s1"
    by (simp add: node_alt chk)
  have run: "nodes_run env (ns @ [n]) s = Inr ?s1"
    by (simp add: nodes_run_append ra nd)
  have f1: "filling 1 ?s1"
    using fb son filling_put_node [of 0 ?sc n] by simp
  have c1: "primitive_block_contents ?s1 = 1"
    using cb by (simp add: put_node_frame)
  have m1: "m_file ?s1 = m_file sb" and cf1: "cfg ?s1 = cfg sb"
    by (simp_all add: put_node_frame)
  have io1: "io_ok env ?s1"
    using iob m1 cf1 by (simp add: io_ok_def cfg_def)
  from store_filling [OF f1 io1] obtain sd blk2 blob2 where
    std: "store_primitive_block env ?s1 = Inr sd"
    and b2: "blob_of env (m_use_compression ?s1) (PrimitiveMsg blk2) = Some blob2"
    and n2: "block_node_count blk2 = 1"
    and md: "m_file sd = file_append (frame_bytes env ''OSMData'' blob2) (m_file ?s1)"
    by blast
  have fin: "final env ?s1 = Inr (sd\<lparr>m_file := (m_file sd)\<lparr>f_closed := True\<rparr>\<rparr>)"
    using c1 std by (simp add: final_def)
  have cmp: "m_use_compression sa = m_use_compression s"
    "m_use_compression ?s1 = m_use_compression s"
    using cfa cfb cf1 by (simp_all add: cfg_def)
  have C: "\<exists>s1 s2 blk1 blob1 blk2 blob2.
               nodes_run env (ns @ [n]) s = Inr s1 \<and> final env s1 = Inr s2
             \<and> blob_of env (m_use_compression s) (PrimitiveMsg blk1) = Some blob1
             \<and> blob_of env (m_use_compression s) (PrimitiveMsg blk2) = Some blob2
             \<and> block_node_count blk1 = 8000 \<and> block_node_count blk2 = 1
             \<and> m_file s2 = (file_append (frame_bytes env ''OSMData'' blob2)
                              (file_append (frame_bytes env ''OSMData'' blob1) (m_file s)))
                              \<lparr>f_closed := True\<rparr>"
    using run fin b1 b2 n1 n2 md m1 mb ma cmp
    by (intro exI [of _ ?s1] exI [of _ "sd\<lparr>m_file := (m_file sd)\<lparr>f_closed := True\<rparr>\<rparr>"]
          exI [of _ blk1] exI [of _ blob1] exI [of _ blk2] exI [of _ blob2]) simp
  show ?thesis using A B C by blast
qed

theorem flush_check_witness:
  "\<exists>s1 s2 blk1 blob1 blk2 blob2.
     nodes_run env0 (replicate 8000 node_a @ [node_b]) pbf0 = Inr s1 \<and> final env0 s1 = Inr s2
     \<and> blob_of env0 True (PrimitiveMsg blk1) = Some blob1
     \<and> blob_of env0 True (PrimitiveMsg blk2) = Some blob2
     \<and> block_node_count blk1 = 8000 \<and> block_node_count blk2 = 1
     \<and> m_file s2 = (file_append (frame_bytes env0 ''OSMData'' blob2)
                      (file_append (frame_bytes env0 ''OSMData'' blob1) file0))\<lparr>f_closed := True\<rparr>"
proof -
  have h1: "filling 0 pbf0"
    by (simp add: filling_def pbf0_def PBF_new_def st_ok_empty empty_primitive_block_def)
  have h2: "primitive_block_contents pbf0 = 0" and h3: "primitive_block_size pbf0 = 0"
    by (simp_all add: pbf0_def PBF_new_def)
  have h4: "io_ok env0 pbf0"
    by (simp add: io_ok_def pbf0_def PBF_new_def file0_def env0_def)
  have h5: "length (replicate 8000 node_a) = 8000" by simp
  have h6: "list_all strings_ok (replicate 8000 node_a @ [node_b])"
    by (simp add: list_all_iff strings_ok_def node_a_def node_b_def)
  have c: "m_use_compression pbf0 = True" and m: "m_file pbf0 = file0"
    by (simp_all add: pbf0_def PBF_new_def)
  from flush_check [OF h1 h2 h3 h4 h5 h6] show ?thesis
    unfolding c m by blast
qed





end
